theory Spec2Isabelle
  imports Complex_Main
begin

section \<open>Python values shared by the models\<close>

text \<open>
  The repository is Python on top of NumPy, SciPy, PyTorch and PyTorch3D. Every raise of
  the source is a value of \<open>py_error\<close>; a function that can raise returns
  \<open>py_error + 'a\<close> with \<open>Inl\<close> for the exception. Floating-point numbers are
  idealised as real numbers throughout: rounding is not modelled.
\<close>

datatype py_error =
    ImportError string string
  | ModuleNotFoundError string
  | KeyError string
  | IndexError
  | ValueError
  | TypeError
  | ZeroDivisionError
  | RuntimeError
  | UnboundLocalError string

type_synonym vec3 = "real \<times> real \<times> real"



subsection \<open>\<open>np.linspace\<close>\<close>

text \<open>
  \<open>np.linspace(start, stop, num)\<close> with the default \<open>endpoint=True\<close>: a negative
  \<open>num\<close> raises \<open>ValueError\<close>; otherwise the samples are
  \<open>arange(num) * step + start\<close> with \<open>step = (stop - start) / (num - 1)\<close>, and for
  \<open>num > 1\<close> the last sample is overwritten with \<open>stop\<close>. For \<open>num = 1\<close> NumPy
  multiplies \<open>arange(1) = [0]\<close> by \<open>stop - start\<close> instead, which gives \<open>[start]\<close>.
\<close>

definition linspace :: "real \<Rightarrow> real \<Rightarrow> int \<Rightarrow> py_error + real list" where
  "linspace start stop num =
     (if num < 0 then Inl ValueError
      else
        let d = num - 1;
            step = (if d > 0 then (stop - start) / real_of_int d else stop - start);
            y = map (\<lambda>k. real k * step + start) [0..<nat num]
        in Inr (if num > 1 then y[nat num - 1 := stop] else y))"

text \<open>The slice \<open>np.linspace(0, 2 * np.pi, n + 1)[:-1]\<close> both functions of
  \<open>utils/render.py\<close> iterate over.\<close>

definition sweep_thetas :: "int \<Rightarrow> py_error + real list" where
  "sweep_thetas n =
     (case linspace 0 (2 * pi) (n + 1) of
        Inl e \<Rightarrow> Inl e
      | Inr ts \<Rightarrow> Inr (butlast ts))"


section \<open>\<open>utils/render.py\<close>: \<open>create_surround_cameras\<close>\<close>






section \<open>Arrays\<close>

text \<open>
  A NumPy array or a PyTorch tensor is its shape and its elements in row-major order.
  \<open>wf_ndarray2\<close> and \<open>wf_ndarray3\<close> say that the number of elements fits the shape,
  which NumPy and PyTorch keep true of every array.
\<close>

record 'a ndarray2 =
  shape0 :: nat
  shape1 :: nat
  entries :: "'a list"

record 'a ndarray3 =
  dim0 :: nat
  dim1 :: nat
  dim2 :: nat
  elems :: "'a list"

definition wf_ndarray2 :: "'a ndarray2 \<Rightarrow> bool" where
  "wf_ndarray2 a = (length (entries a) = shape0 a * shape1 a)"

definition wf_ndarray3 :: "'a ndarray3 \<Rightarrow> bool" where
  "wf_ndarray3 a = (length (elems a) = dim0 a * dim1 a * dim2 a)"

text \<open>\<open>a[i, j]\<close> and \<open>a[c, y, x]\<close> for indices in range.\<close>

definition at2 :: "'a ndarray2 \<Rightarrow> nat \<Rightarrow> nat \<Rightarrow> 'a" where
  "at2 a i j = entries a ! (i * shape1 a + j)"

definition at3 :: "'a ndarray3 \<Rightarrow> nat \<Rightarrow> nat \<Rightarrow> nat \<Rightarrow> 'a" where
  "at3 a c y x = elems a ! ((c * dim1 a + y) * dim2 a + x)"

text \<open>The array of shape \<open>(n, m)\<close> whose element \<open>[i, j]\<close> is \<open>f i j\<close>.\<close>

definition tabulate2 :: "nat \<Rightarrow> nat \<Rightarrow> (nat \<Rightarrow> nat \<Rightarrow> 'a) \<Rightarrow> 'a ndarray2" where
  "tabulate2 n m f =
     \<lparr>shape0 = n, shape1 = m, entries = map (\<lambda>p. f (p div m) (p mod m)) [0..<n * m]\<rparr>"

text \<open>
  An index of Python, NumPy and PyTorch along an axis of size \<open>n\<close>: a negative index
  counts from the end, and an index outside \<open>-n .. n - 1\<close> raises \<open>IndexError\<close>.
\<close>

definition py_index :: "nat \<Rightarrow> int \<Rightarrow> py_error + nat" where
  "py_index n i =
     (if 0 \<le> i \<and> i < int n then Inr (nat i)
      else if - int n \<le> i \<and> i < 0 then Inr (nat (int n + i))
      else Inl IndexError)"

type_synonym rgb = "real \<times> real \<times> real"

text \<open>\<open>np.zeros((d0, d1, 3))\<close>: a grid of pixels, each the colour \<open>(0, 0, 0)\<close>.\<close>

definition zeros3 :: "nat \<Rightarrow> nat \<Rightarrow> rgb ndarray2" where
  "zeros3 d0 d1 = \<lparr>shape0 = d0, shape1 = d1, entries = replicate (d0 * d1) (0, 0, 0)\<rparr>"

text \<open>\<open>a == 1\<close>, element by element.\<close>

definition eq_1 :: "int ndarray2 \<Rightarrow> bool ndarray2" where
  "eq_1 a = \<lparr>shape0 = shape0 a, shape1 = shape1 a, entries = map (\<lambda>v. v = 1) (entries a)\<rparr>"

text \<open>
  The assignment \<open>img[vmask, :] = vs\<close> of NumPy, for a boolean \<open>vmask\<close> over the first two
  axes of \<open>img\<close>: the rows of \<open>vs\<close> go, in order, to the cells where \<open>vmask\<close> is true, in
  row-major order of the cells. The shape of \<open>vmask\<close> must be that of the two axes
  (\<open>IndexError\<close>); the number of rows of \<open>vs\<close> must be the number of true cells, or one,
  in which case the row is broadcast to every true cell (\<open>ValueError\<close> otherwise).
\<close>

fun scatter :: "bool list \<Rightarrow> 'a list \<Rightarrow> 'a list \<Rightarrow> 'a list" where
  "scatter (True # bs) (x # xs) (v # vs) = v # scatter bs xs vs"
| "scatter (False # bs) (x # xs) vs = x # scatter bs xs vs"
| "scatter bs xs vs = xs"

definition count_true :: "bool list \<Rightarrow> nat" where
  "count_true bs = length (filter id bs)"

definition masked_assign ::
  "'a ndarray2 \<Rightarrow> bool ndarray2 \<Rightarrow> 'a list \<Rightarrow> py_error + 'a ndarray2" where
  "masked_assign img vmask vs =
     (if shape0 vmask \<noteq> shape0 img \<or> shape1 vmask \<noteq> shape1 img then Inl IndexError
      else if length vs = count_true (entries vmask)
        then Inr (img\<lparr>entries := scatter (entries vmask) (entries img) vs\<rparr>)
      else if length vs = 1
        then Inr (img\<lparr>entries :=
               scatter (entries vmask) (entries img)
                 (replicate (count_true (entries vmask)) (hd vs))\<rparr>)
      else Inl ValueError)"

subsection \<open>\<open>Rotation.from_euler('z', theta, degrees=True).as_quat()\<close>\<close>

text \<open>
  SciPy turns the angle from degrees to radians and returns the quaternion of the
  rotation about the z axis, scalar last: \<open>[x, y, z, w] = [0, 0, sin (a / 2), cos (a / 2)]\<close>.
\<close>

definition deg2rad :: "real \<Rightarrow> real" where
  "deg2rad x = x * pi / 180"

definition from_euler_z_degrees_as_quat :: "real \<Rightarrow> real list" where
  "from_euler_z_degrees_as_quat theta =
     [0, 0, sin (deg2rad theta / 2), cos (deg2rad theta / 2)]"

subsection \<open>\<open>torch.nn.functional.mse_loss\<close>\<close>

text \<open>
  The mean of the squared differences of two tensors, after broadcasting them to a
  common shape: along each axis the sizes are equal or one of them is 1
  (\<open>RuntimeError\<close> otherwise). The mean of no element is \<open>nan\<close>.
\<close>

datatype torch_scalar = Finite real | NaN

definition broadcast_dim :: "nat \<Rightarrow> nat \<Rightarrow> nat option" where
  "broadcast_dim a b =
     (if a = b then Some a else if a = 1 then Some b else if b = 1 then Some a else None)"

definition bc_at2 :: "'a ndarray2 \<Rightarrow> nat \<Rightarrow> nat \<Rightarrow> 'a" where
  "bc_at2 a i j = at2 a (if shape0 a = 1 then 0 else i) (if shape1 a = 1 then 0 else j)"

definition mse_loss :: "real ndarray2 \<Rightarrow> real ndarray2 \<Rightarrow> py_error + torch_scalar" where
  "mse_loss inp target =
     (case (broadcast_dim (shape0 inp) (shape0 target),
            broadcast_dim (shape1 inp) (shape1 target)) of
        (Some n, Some m) \<Rightarrow>
          Inr (if n * m = 0 then NaN
               else Finite
                 (sum_list (map (\<lambda>i. sum_list (map (\<lambda>j. (bc_at2 inp i j - bc_at2 target i j)\<^sup>2)
                                                [0..<m])) [0..<n])
                  / real (n * m)))
      | _ \<Rightarrow> Inl RuntimeError)"


section \<open>Configuration, model and effects\<close>

text \<open>
  The Hydra configuration, with the options \<open>run.py\<close> reads. The top-level fields
  carry the prefix \<open>cfg_\<close>; the fields of \<open>cfg.data\<close> and \<open>cfg.training\<close> keep their
  names. A section that selects a variant has its \<open>type\<close> and its other options.
\<close>

record cfg_section =
  type :: string
  options :: "(string \<times> real) list"

record data_cfg =
  fov_degree :: real
  image_shape :: "int list"
  traj_data_root :: string

record training_cfg =
  batch_size :: int
  checkpoint_path :: string
  resume :: bool
  lr :: real
  lr_scheduler_gamma :: real
  lr_scheduler_step_size :: real
  num_epochs :: int
  checkpoint_interval :: int
  render_interval :: int

record cfg =
  cfg_data :: data_cfg
  cfg_implicit_function :: cfg_section
  cfg_sampler :: cfg_section
  cfg_renderer :: cfg_section
  cfg_training :: training_cfg
  cfg_debug :: bool
  cfg_vis_style :: string
  cfg_type :: string

text \<open>
  \<open>LinearSphere\<close> and \<open>ShapeStruct\<close> belong to the package \<open>image_resampling\<close>: the
  camera is the record of its constructor arguments.
\<close>

record ShapeStruct =
  ss_H :: nat
  ss_W :: nat

record LinearSphere =
  ls_fov_degree :: real
  ss :: ShapeStruct
  in_to_tensor :: bool
  out_to_numpy :: bool

text \<open>
  \<open>pixel_coords\<close> is a tensor of shape \<open>(2, N)\<close> of integers: column \<open>k\<close> is the pixel
  \<open>(x, y)\<close>, the first row the x (column) coordinates and the second row the y (row)
  coordinates (line 159 of \<open>run.py\<close>). Line 172 indexes a NumPy array with it, which
  NumPy accepts of integers only.
\<close>

type_synonym pixel_coords = "(int \<times> int) list"

type_synonym pixel_xys = "(real \<times> real) list"

record RayBundle =
  origins :: "vec3 list"
  directions :: "vec3 list"
  sample_points :: "vec3 list list"
  sample_lengths :: "real list list"

text \<open>The dictionary the renderer returns: \<open>out["feature"]\<close> is one colour per ray.\<close>

record render_out =
  feature :: "rgb list"

text \<open>The object \<open>Model\<close> of \<open>run.py\<close>; \<open>'c\<close> is the type of its three components.\<close>

record 'c Model =
  camera_model :: LinearSphere
  valid_mask :: "int ndarray2"
  X_ned_cam :: "real list list"
  implicit_fn :: 'c
  sampler :: 'c
  renderer :: 'c

text \<open>
  One training example: the image, a tensor of shape \<open>(1, 3, H, W)\<close> whose leading axis
  of size one is dropped here (line 171 squeezes it), and the pose.
\<close>

type_synonym sample = "real ndarray3 \<times> real list"

text \<open>The optimizer and the learning-rate scheduler of PyTorch, as their state.\<close>

record optimizer =
  opt_lr :: real
  opt_buffers :: "real list list"
  opt_last_epoch :: int

record lr_scheduler =
  sched_last_epoch :: int
  sched_base_lr :: real

text \<open>The dictionary \<open>train\<close> stores with \<open>torch.save\<close>.\<close>

record checkpoint =
  ck_model :: "real list list"
  ck_optimizer :: optimizer
  ck_epoch :: int

subsection \<open>The calls that leave the two files\<close>

text \<open>
  Each call of a function that is not defined in \<open>run.py\<close> or \<open>utils/render.py\<close> and
  that a claim speaks of is recorded, with its arguments, in the order of execution.
  \<open>Forward\<close> carries the state of gradient tracking at the call.
\<close>

datatype call =
    GetValidMask LinearSphere
  | GetRandomPixels int "int list" LinearSphere "int ndarray2"
  | GetPixels LinearSphere "int ndarray2" bool
  | GetRays pixel_coords LinearSphere "real list list" "real list" bool
  | Forward bool RayBundle
  | ImSave string real "rgb ndarray2"
  | MimSave int "rgb ndarray2 list"
  | ShowMask "int ndarray2"
  | ShowPixels pixel_coords
  | SetDescription int torch_scalar
  | MakeDirs string

text \<open>
  The state a run changes: the values of the parameter tensors of the model, as
  \<open>model.parameters()\<close> lists them, and their gradients; the training flag of the
  module; whether gradient tracking is enabled; the state of the random generators,
  a counter that every random draw advances; the checkpoint files; the recorded calls.
\<close>

record world =
  parameters :: "real list list"
  grads :: "real list list option"
  train_mode :: bool
  grad_enabled :: bool
  rng :: nat
  files :: "string \<Rightarrow> checkpoint option"
  calls :: "call list"

text \<open>
  The code of the repository that is not in the two files (\<open>fish_nerf\<close>,
  \<open>utils.dataset\<close>, \<open>render_images_in_poses\<close>) and the library calls whose results the
  claims do not depend on are parameters of the model, collected in one record. The
  renderer receives the three components, the training flag, the state of gradient
  tracking, the random state, the parameters and the rays, and returns the parameters
  after the call with its result.
\<close>

record 'c externals =
  ext_get_valid_mask :: "LinearSphere \<Rightarrow> int ndarray2"
  ext_get_pixels_from_image ::
    "LinearSphere \<Rightarrow> int ndarray2 \<Rightarrow> bool \<Rightarrow> py_error + pixel_coords \<times> pixel_xys"
  ext_get_random_pixels_from_image ::
    "nat \<Rightarrow> int \<Rightarrow> int list \<Rightarrow> LinearSphere \<Rightarrow> int ndarray2 \<Rightarrow>
       py_error + pixel_coords \<times> pixel_xys"
  ext_get_rays_from_pixels ::
    "pixel_coords \<Rightarrow> LinearSphere \<Rightarrow> real list list \<Rightarrow> real list \<Rightarrow> bool \<Rightarrow>
       py_error + RayBundle"
  ext_renderer ::
    "'c \<Rightarrow> 'c \<Rightarrow> 'c \<Rightarrow> bool \<Rightarrow> bool \<Rightarrow> nat \<Rightarrow> real list list \<Rightarrow> RayBundle \<Rightarrow>
       real list list \<times> (py_error + render_out)"
  volume_dict :: "string \<Rightarrow> (cfg_section \<Rightarrow> py_error + 'c) option"
  sampler_dict :: "string \<Rightarrow> (cfg_section \<Rightarrow> py_error + 'c) option"
  renderer_dict :: "string \<Rightarrow> (cfg_section \<Rightarrow> py_error + 'c) option"
  ext_initial_parameters :: "'c \<Rightarrow> 'c \<Rightarrow> 'c \<Rightarrow> real list list"
  ext_get_dataset :: "string \<Rightarrow> int list \<Rightarrow> py_error + sample list \<times> sample list"
  ext_shuffle :: "nat \<Rightarrow> sample list \<Rightarrow> sample list"
  ext_randbelow :: "nat \<Rightarrow> nat \<Rightarrow> nat"
  ext_backward ::
    "'c \<Rightarrow> 'c \<Rightarrow> 'c \<Rightarrow> real list list \<Rightarrow> RayBundle \<Rightarrow> real ndarray2 \<Rightarrow> real list list"
  ext_Adam :: "real list list \<Rightarrow> real \<Rightarrow> py_error + optimizer"
  ext_optimizer_load_state_dict :: "optimizer \<Rightarrow> optimizer \<Rightarrow> optimizer"
  ext_optimizer_step ::
    "optimizer \<Rightarrow> real list list \<Rightarrow> real list list option \<Rightarrow> optimizer \<times> real list list"
  ext_LambdaLR ::
    "optimizer \<Rightarrow> (int \<Rightarrow> py_error + real) \<Rightarrow> int \<Rightarrow> py_error + optimizer \<times> lr_scheduler"
  ext_scheduler_step ::
    "lr_scheduler \<Rightarrow> optimizer \<Rightarrow> (int \<Rightarrow> py_error + real) \<Rightarrow>
       py_error + optimizer \<times> lr_scheduler"
  ext_render_images_in_poses ::
    "'c Model \<Rightarrow> sample list \<Rightarrow> int \<Rightarrow> bool \<Rightarrow> real list list \<Rightarrow> nat \<Rightarrow>
       real list list \<times> (py_error + rgb ndarray2 list)"
  ext_original_cwd :: string
  ext_path_join :: "string \<Rightarrow> string \<Rightarrow> string"
  ext_path_dirname :: "string \<Rightarrow> string"
  ext_pow :: "real \<Rightarrow> real \<Rightarrow> py_error + real"

subsection \<open>Statements with effects\<close>

text \<open>
  A statement takes the state and returns the state after it with an exception or a
  result. \<open>io_bind\<close> is the sequence of two statements: an exception of the first
  ends the sequence.
\<close>

type_synonym 'a io = "world \<Rightarrow> world \<times> (py_error + 'a)"

definition io_return :: "'a \<Rightarrow> 'a io" where
  "io_return x w = (w, Inr x)"

definition io_raise :: "py_error \<Rightarrow> 'a io" where
  "io_raise e w = (w, Inl e)"

definition io_lift :: "py_error + 'a \<Rightarrow> 'a io" where
  "io_lift r w = (w, r)"

definition io_bind :: "'a io \<Rightarrow> ('a \<Rightarrow> 'b io) \<Rightarrow> 'b io" where
  "io_bind m f w = (case m w of (w1, Inl e) \<Rightarrow> (w1, Inl e) | (w1, Inr x) \<Rightarrow> f x w1)"

definition record_call :: "call \<Rightarrow> unit io" where
  "record_call c w = (w\<lparr>calls := calls w @ [c]\<rparr>, Inr ())"

text \<open>\<open>with torch.no_grad():\<close> disables gradient tracking for its body and restores
  the previous state when the body ends, also by an exception.\<close>

definition no_grad :: "'a io \<Rightarrow> 'a io" where
  "no_grad body w =
     (let res = body (w\<lparr>grad_enabled := False\<rparr>)
      in ((fst res)\<lparr>grad_enabled := grad_enabled w\<rparr>, snd res))"

text \<open>The calls into \<open>fish_nerf.ray\<close> and into the camera model.\<close>

definition get_valid_mask :: "'c externals \<Rightarrow> LinearSphere \<Rightarrow> int ndarray2 io" where
  "get_valid_mask E cam =
     io_bind (record_call (GetValidMask cam)) (\<lambda>_. io_return (ext_get_valid_mask E cam))"

definition get_pixels_from_image ::
  "'c externals \<Rightarrow> LinearSphere \<Rightarrow> int ndarray2 \<Rightarrow> bool \<Rightarrow> (pixel_coords \<times> pixel_xys) io" where
  "get_pixels_from_image E cam vm filter_valid =
     io_bind (record_call (GetPixels cam vm filter_valid))
       (\<lambda>_. io_lift (ext_get_pixels_from_image E cam vm filter_valid))"

definition get_random_pixels_from_image ::
  "'c externals \<Rightarrow> int \<Rightarrow> int list \<Rightarrow> LinearSphere \<Rightarrow> int ndarray2 \<Rightarrow>
     (pixel_coords \<times> pixel_xys) io" where
  "get_random_pixels_from_image E n image_size cam vm w =
     (w\<lparr>rng := rng w + 1, calls := calls w @ [GetRandomPixels n image_size cam vm]\<rparr>,
      ext_get_random_pixels_from_image E (rng w) n image_size cam vm)"

definition get_rays_from_pixels ::
  "'c externals \<Rightarrow> pixel_coords \<Rightarrow> LinearSphere \<Rightarrow> real list list \<Rightarrow> real list \<Rightarrow> bool \<Rightarrow>
     RayBundle io" where
  "get_rays_from_pixels E pc cam X pose debug =
     io_bind (record_call (GetRays pc cam X pose debug))
       (\<lambda>_. io_lift (ext_get_rays_from_pixels E pc cam X pose debug))"

section \<open>\<open>run.py\<close>: the class \<open>Model\<close>\<close>

text \<open>\<open>d[section.type](section)\<close> for a registry \<open>d\<close>: a name that is not a key of the
  dictionary raises \<open>KeyError\<close>.\<close>

definition registry_build ::
  "(string \<Rightarrow> (cfg_section \<Rightarrow> py_error + 'c) option) \<Rightarrow> cfg_section \<Rightarrow> py_error + 'c" where
  "registry_build d section =
     (case d (type section) of
        None \<Rightarrow> Inl (KeyError (type section))
      | Some constructor \<Rightarrow> constructor section)"

text \<open>
  \<open>Model.__init__\<close>, lines 35 to 63. The parameter tensors the constructors of the
  components allocate become the parameters of the model; a new module is in training
  mode.
\<close>

definition Model_init :: "'c externals \<Rightarrow> cfg \<Rightarrow> 'c Model io" where
  "Model_init E c =
     (let camera = \<lparr>ls_fov_degree = fov_degree (cfg_data c),
                    ss = \<lparr>ss_H = 256, ss_W = 256\<rparr>,
                    in_to_tensor = False, out_to_numpy = False\<rparr>
      in io_bind (get_valid_mask E camera) (\<lambda>vm.
         io_bind (io_lift (registry_build (volume_dict E) (cfg_implicit_function c))) (\<lambda>v.
         io_bind (io_lift (registry_build (sampler_dict E) (cfg_sampler c))) (\<lambda>s.
         io_bind (io_lift (registry_build (renderer_dict E) (cfg_renderer c))) (\<lambda>r.
         (\<lambda>w. (w\<lparr>parameters := ext_initial_parameters E v s r, train_mode := True\<rparr>,
               Inr \<lparr>camera_model = camera, valid_mask = vm,
                    X_ned_cam = [[0, 0, 1, 0], [1, 0, 0, 0], [0, 1, 0, 0], [0, 0, 0, 1]],
                    implicit_fn = v, sampler = s, renderer = r\<rparr>)))))))"

text \<open>\<open>Model.forward\<close>, lines 65 to 70, as \<open>model(ray_bundle)\<close> calls it.\<close>

definition Model_forward :: "'c externals \<Rightarrow> 'c Model \<Rightarrow> RayBundle \<Rightarrow> render_out io" where
  "Model_forward E m ray_bundle w =
     (let res = ext_renderer E (renderer m) (sampler m) (implicit_fn m)
                  (train_mode w) (grad_enabled w) (rng w) (parameters w) ray_bundle
      in (w\<lparr>parameters := fst res, rng := rng w + 1,
              calls := calls w @ [Forward (grad_enabled w) ray_bundle]\<rparr>, snd res))"

section \<open>\<open>utils/render.py\<close>: \<open>render_images\<close>\<close>

text \<open>Lines 83 and 84: the image of one frame from the colours of its rays.\<close>

definition assemble_image :: "'c Model \<Rightarrow> rgb list \<Rightarrow> py_error + rgb ndarray2" where
  "assemble_image m colours =
     masked_assign (zeros3 (ss_W (ss (camera_model m))) (ss_H (ss (camera_model m))))
       (eq_1 (valid_mask m)) colours"

definition imsave :: "string \<Rightarrow> real \<Rightarrow> rgb ndarray2 \<Rightarrow> unit io" where
  "imsave file_prefix theta img = record_call (ImSave file_prefix theta img)"

text \<open>
  Lines 66 to 89: the body of the loop, for one \<open>theta\<close>. The two conversions to
  \<open>float32\<close> leave a real number as it is.
\<close>

definition render_frame ::
  "'c externals \<Rightarrow> 'c Model \<Rightarrow> real list \<Rightarrow> bool \<Rightarrow> string \<Rightarrow> real \<Rightarrow> rgb ndarray2 io" where
  "render_frame E m translation save file_prefix theta =
     (let quat = from_euler_z_degrees_as_quat theta;
          pose = translation @ quat
      in io_bind (get_pixels_from_image E (camera_model m) (valid_mask m) True)
           (\<lambda>(pixel_coords, pixel_xys).
         io_bind (get_rays_from_pixels E pixel_coords (camera_model m) (X_ned_cam m) pose False)
           (\<lambda>ray_bundle.
         io_bind (Model_forward E m
                    (ray_bundle\<lparr>origins := origins ray_bundle,
                                 directions := directions ray_bundle\<rparr>))
           (\<lambda>out.
         io_bind (io_lift (assemble_image m (feature out))) (\<lambda>img.
         io_bind (if save then imsave file_prefix theta img else io_return ()) (\<lambda>_.
         io_return img))))))"

fun render_loop ::
  "'c externals \<Rightarrow> 'c Model \<Rightarrow> real list \<Rightarrow> bool \<Rightarrow> string \<Rightarrow> real list \<Rightarrow>
     rgb ndarray2 list \<Rightarrow> rgb ndarray2 list io" where
  "render_loop E m translation save file_prefix [] all_images w = (w, Inr all_images)"
| "render_loop E m translation save file_prefix (theta # thetas) all_images w =
     io_bind (render_frame E m translation save file_prefix theta)
       (\<lambda>img. render_loop E m translation save file_prefix thetas (all_images @ [img])) w"

text \<open>
  \<open>render_images\<close>, lines 53 to 91. Line 61 reads the first parameter of the model, an
  \<open>IndexError\<close> for a model without parameters.
\<close>

definition render_images ::
  "'c externals \<Rightarrow> 'c Model \<Rightarrow> real list \<Rightarrow> int \<Rightarrow> bool \<Rightarrow> string \<Rightarrow> rgb ndarray2 list io"
  where
  "render_images E m translation num_images save file_prefix w =
     (if parameters w = [] then (w, Inl IndexError)
      else case sweep_thetas num_images of
             Inl e \<Rightarrow> (w, Inl e)
           | Inr thetas \<Rightarrow> render_loop E m translation save file_prefix thetas [] w)"


section \<open>\<open>run.py\<close>: \<open>create_model\<close> and \<open>train\<close>\<close>

subsection \<open>\<open>create_model\<close>\<close>

text \<open>
  \<open>lr_lambda\<close>, lines 114 to 117: \<open>gamma ** (epoch / step_size)\<close>. The division raises
  \<open>ZeroDivisionError\<close> for a step size of 0; the power of Python is the parameter
  \<open>ext_pow\<close>.
\<close>

definition lr_lambda :: "'c externals \<Rightarrow> cfg \<Rightarrow> int \<Rightarrow> py_error + real" where
  "lr_lambda E c epoch =
     (if lr_scheduler_step_size (cfg_training c) = 0 then Inl ZeroDivisionError
      else ext_pow E (lr_scheduler_gamma (cfg_training c))
             (real_of_int epoch / lr_scheduler_step_size (cfg_training c)))"

text \<open>
  Lines 95 to 100: \<open>model.load_state_dict\<close> overwrites the parameters of the model with
  those of the checkpoint, a \<open>RuntimeError\<close> when the shapes differ.
\<close>

definition load_checkpoint :: "checkpoint \<Rightarrow> (optimizer option \<times> int) io" where
  "load_checkpoint ck w =
     (if map length (ck_model ck) = map length (parameters w)
      then (w\<lparr>parameters := ck_model ck\<rparr>, Inr (Some (ck_optimizer ck), ck_epoch ck))
      else (w, Inl RuntimeError))"

text \<open>
  \<open>create_model\<close>, lines 73 to 123: the construction of the model, and the rest,
  \<open>create_model_rest\<close>. \<open>os.path.join\<close>, \<open>os.path.split\<close> and the power of Python
  are the parameters \<open>ext_path_join\<close>, \<open>ext_path_dirname\<close> and \<open>ext_pow\<close>; a path is a
  file when a checkpoint is stored under it. \<open>model.cuda()\<close> moves the parameters and
  leaves their values.
\<close>

definition create_model_rest ::
  "'c externals \<Rightarrow> cfg \<Rightarrow> 'c Model \<Rightarrow>
     ('c Model \<times> optimizer \<times> lr_scheduler \<times> int \<times> string) io" where
  "create_model_rest E c model =
     io_bind (\<lambda>w. (w\<lparr>train_mode := True\<rparr>, Inr ())) (\<lambda>_.
     (let ckpt_path = ext_path_join E (ext_original_cwd E) (checkpoint_path (cfg_training c))
      in io_bind
           (if length (checkpoint_path (cfg_training c)) > 0
            then io_bind (record_call (MakeDirs (ext_path_dirname E ckpt_path))) (\<lambda>_.
                   (\<lambda>w. if resume (cfg_training c)
                        then (case files w ckpt_path of
                                Some ck \<Rightarrow> load_checkpoint ck w
                              | None \<Rightarrow> (w, Inr (None, 0)))
                        else (w, Inr (None, 0))))
            else io_return (None, 0))
           (\<lambda>(optimizer_state_dict, start_epoch).
         io_bind (\<lambda>w. (w, ext_Adam E (parameters w) (lr (cfg_training c)))) (\<lambda>opt.
         (let opt1 = (case optimizer_state_dict of
                        None \<Rightarrow> opt
                      | Some sd \<Rightarrow> (ext_optimizer_load_state_dict E opt sd)
                                     \<lparr>opt_last_epoch := start_epoch\<rparr>)
          in io_bind (io_lift (ext_LambdaLR E opt1 (lr_lambda E c) (start_epoch - 1)))
               (\<lambda>(opt2, sched).
             io_return (model, opt2, sched, start_epoch, ckpt_path)))))))"

definition create_model ::
  "'c externals \<Rightarrow> cfg \<Rightarrow> ('c Model \<times> optimizer \<times> lr_scheduler \<times> int \<times> string) io" where
  "create_model E c = io_bind (Model_init E c) (create_model_rest E c)"

subsection \<open>One iteration of the training loop\<close>

text \<open>
  Line 180: \<open>image[:, :, ys, xs].squeeze(0).transpose(0, 1)\<close> with
  \<open>ys = pixel_coords[1, :].long()\<close> and \<open>xs = pixel_coords[0, :].long()\<close>. The two index
  tensors select, in every channel, the element at row \<open>ys[k]\<close> and column \<open>xs[k]\<close>: a
  tensor of shape \<open>(3, N)\<close> once the leading axis is squeezed, transposed to \<open>(N, 3)\<close>.
\<close>

fun py_indices :: "nat \<Rightarrow> int list \<Rightarrow> py_error + nat list" where
  "py_indices n [] = Inr []"
| "py_indices n (i # is) =
     (case py_index n i of
        Inl e \<Rightarrow> Inl e
      | Inr k \<Rightarrow> (case py_indices n is of Inl e \<Rightarrow> Inl e | Inr ks \<Rightarrow> Inr (k # ks)))"

definition gather_hw :: "'a ndarray3 \<Rightarrow> int list \<Rightarrow> int list \<Rightarrow> py_error + 'a ndarray2" where
  "gather_hw img ys xs =
     (case py_indices (dim1 img) ys of
        Inl e \<Rightarrow> Inl e
      | Inr rows \<Rightarrow>
          (case py_indices (dim2 img) xs of
             Inl e \<Rightarrow> Inl e
           | Inr cols \<Rightarrow>
               Inr (tabulate2 (dim0 img) (length rows)
                      (\<lambda>c k. at3 img c (rows ! k) (cols ! k)))))"

definition transpose01 :: "'a ndarray2 \<Rightarrow> 'a ndarray2" where
  "transpose01 t = tabulate2 (shape1 t) (shape0 t) (\<lambda>i j. at2 t j i)"

definition sample_image_at :: "real ndarray3 \<Rightarrow> pixel_coords \<Rightarrow> py_error + real ndarray2" where
  "sample_image_at img pixel_coords =
     (case gather_hw img (map snd pixel_coords) (map fst pixel_coords) of
        Inl e \<Rightarrow> Inl e
      | Inr t \<Rightarrow> Inr (transpose01 t))"

text \<open>\<open>out["feature"]\<close> as the tensor of shape \<open>(N, 3)\<close> it is.\<close>

definition feature_tensor :: "rgb list \<Rightarrow> real ndarray2" where
  "feature_tensor colours =
     tabulate2 (length colours) 3
       (\<lambda>k j. case colours ! k of (r, g, b) \<Rightarrow> if j = 0 then r else if j = 1 then g else b)"

text \<open>
  Lines 164 to 174, under \<open>cfg.debug\<close>: the mask is shown, then an image with the
  sampled pixels set, which indexes an array of shape \<open>(H, W, 3)\<close> with the rows and
  columns of the pixels.
\<close>

definition debug_show :: "'c Model \<Rightarrow> real ndarray3 \<Rightarrow> pixel_coords \<Rightarrow> unit io" where
  "debug_show model img pixel_coords =
     io_bind (record_call (ShowMask (valid_mask model))) (\<lambda>_.
     io_bind (io_lift (py_indices (dim1 img) (map snd pixel_coords))) (\<lambda>_.
     io_bind (io_lift (py_indices (dim2 img) (map fst pixel_coords))) (\<lambda>_.
     record_call (ShowPixels pixel_coords))))"

text \<open>Lines 189 to 191: \<open>optimizer.zero_grad()\<close>, \<open>loss.backward()\<close>, which needs
  gradient tracking and adds to the gradients, and \<open>optimizer.step()\<close>.\<close>

definition zero_grad :: "unit io" where
  "zero_grad w = (w\<lparr>grads := None\<rparr>, Inr ())"

definition loss_backward ::
  "'c externals \<Rightarrow> 'c Model \<Rightarrow> RayBundle \<Rightarrow> real ndarray2 \<Rightarrow> unit io" where
  "loss_backward E model ray_bundle rgb_gt w =
     (if grad_enabled w
      then (let g = ext_backward E (renderer model) (sampler model) (implicit_fn model)
                      (parameters w) ray_bundle rgb_gt
            in (w\<lparr>grads := Some (case grads w of
                                    None \<Rightarrow> g
                                  | Some g0 \<Rightarrow> map2 (map2 (+)) g0 g)\<rparr>, Inr ()))
      else (w, Inl RuntimeError))"

definition optimizer_step :: "'c externals \<Rightarrow> optimizer \<Rightarrow> optimizer io" where
  "optimizer_step E opt w =
     (let res = ext_optimizer_step E opt (parameters w) (grads w)
      in (w\<lparr>parameters := snd res\<rparr>, Inr (fst res)))"

text \<open>
  Lines 156 to 194: the body of the inner loop. The state of the loop is the optimizer
  and the poses seen so far, a set kept as a list without repetition.
\<close>

definition train_iteration ::
  "'c externals \<Rightarrow> cfg \<Rightarrow> 'c Model \<Rightarrow> int list \<Rightarrow> int \<Rightarrow> optimizer \<times> real list list \<Rightarrow> sample \<Rightarrow>
     (optimizer \<times> real list list) io" where
  "train_iteration E c model image_size epoch st batch =
     (case batch of (img, pose) \<Rightarrow>
      case st of (opt, seen_camera_poses) \<Rightarrow>
        io_bind (get_random_pixels_from_image E (batch_size (cfg_training c)) image_size
                   (camera_model model) (valid_mask model))
          (\<lambda>(pixel_coords, pixel_xys).
        io_bind (if cfg_debug c then debug_show model img pixel_coords else io_return ()) (\<lambda>_.
        io_bind (get_rays_from_pixels E pixel_coords (camera_model model) (X_ned_cam model)
                   pose (cfg_debug c))
          (\<lambda>ray_bundle.
        io_bind (io_lift (sample_image_at img pixel_coords)) (\<lambda>rgb_gt.
        io_bind (Model_forward E model ray_bundle) (\<lambda>out.
        io_bind (io_lift (mse_loss (feature_tensor (feature out)) rgb_gt)) (\<lambda>loss.
        io_bind zero_grad (\<lambda>_.
        io_bind (loss_backward E model ray_bundle rgb_gt) (\<lambda>_.
        io_bind (optimizer_step E opt) (\<lambda>opt1.
        io_bind (record_call (SetDescription epoch loss)) (\<lambda>_.
        io_return (opt1, List.insert pose seen_camera_poses))))))))))))"

fun train_batches ::
  "'c externals \<Rightarrow> cfg \<Rightarrow> 'c Model \<Rightarrow> int list \<Rightarrow> int \<Rightarrow> optimizer \<times> real list list \<Rightarrow>
     sample list \<Rightarrow> (optimizer \<times> real list list) io" where
  "train_batches E c model image_size epoch st [] w = (w, Inr st)"
| "train_batches E c model image_size epoch st (batch # batches) w =
     io_bind (train_iteration E c model image_size epoch st batch)
       (\<lambda>st1. train_batches E c model image_size epoch st1 batches) w"

subsection \<open>The end of an epoch\<close>

text \<open>Lines 200 to 213. \<open>epoch % interval\<close> is evaluated first and raises
  \<open>ZeroDivisionError\<close> for an interval of 0.\<close>

definition epoch_checkpoint :: "cfg \<Rightarrow> string \<Rightarrow> optimizer \<Rightarrow> int \<Rightarrow> unit io" where
  "epoch_checkpoint c ckpt_path opt epoch w =
     (if checkpoint_interval (cfg_training c) = 0 then (w, Inl ZeroDivisionError)
      else if epoch mod checkpoint_interval (cfg_training c) = 0
              \<and> length (checkpoint_path (cfg_training c)) > 0 \<and> epoch > 0
        then (w\<lparr>files := (files w)(ckpt_path \<mapsto>
                  \<lparr>ck_model = parameters w, ck_optimizer = opt, ck_epoch = epoch\<rparr>)\<rparr>, Inr ())
      else (w, Inr ()))"

text \<open>Line 221: \<open>random.sample(list(seen_camera_poses), 1)[0]\<close>, a \<open>ValueError\<close> when
  no pose was seen.\<close>

definition random_sample_pose :: "'c externals \<Rightarrow> real list list \<Rightarrow> real list io" where
  "random_sample_pose E seen_camera_poses w =
     (if seen_camera_poses = [] then (w, Inl ValueError)
      else (w\<lparr>rng := rng w + 1\<rparr>,
            Inr (seen_camera_poses !
                   (ext_randbelow E (rng w) (length seen_camera_poses)
                      mod length seen_camera_poses))))"

definition render_images_in_poses ::
  "'c externals \<Rightarrow> 'c Model \<Rightarrow> sample list \<Rightarrow> int \<Rightarrow> bool \<Rightarrow> rgb ndarray2 list io" where
  "render_images_in_poses E model dataset num_images fix_heading w =
     (let res = ext_render_images_in_poses E model dataset num_images fix_heading
                  (parameters w) (rng w)
      in (w\<lparr>parameters := fst res, rng := rng w + 1\<rparr>, snd res))"

text \<open>
  Lines 219 to 243, the body of \<open>with torch.no_grad():\<close>. \<open>test_images\<close> is bound by
  one of the two branches; with any other \<open>cfg.vis_style\<close> line 242 reads an unbound
  local variable. \<open>random_pose[0:3]\<close> is \<open>take 3\<close>.
\<close>

definition render_body ::
  "'c externals \<Rightarrow> cfg \<Rightarrow> 'c Model \<Rightarrow> sample list \<Rightarrow> int \<Rightarrow> real list list \<Rightarrow> unit io" where
  "render_body E c model train_dataset epoch seen_camera_poses =
     io_bind
       (if cfg_vis_style c = ''random_pose''
        then io_bind (random_sample_pose E seen_camera_poses) (\<lambda>random_pose.
             io_bind (render_images E model (take 3 random_pose) 20 False [])
               (\<lambda>imgs. io_return (Some imgs)))
        else io_return None)
       (\<lambda>t1.
     io_bind
       (if cfg_vis_style c = ''trajectory''
        then io_bind (render_images_in_poses E model train_dataset 100 True)
               (\<lambda>imgs. io_return (Some imgs))
        else io_return t1)
       (\<lambda>test_images.
     (case test_images of
        None \<Rightarrow> io_raise (UnboundLocalError ''test_images'')
      | Some imgs \<Rightarrow> record_call (MimSave epoch imgs))))"

text \<open>Lines 216 to 243.\<close>

definition epoch_render ::
  "'c externals \<Rightarrow> cfg \<Rightarrow> 'c Model \<Rightarrow> sample list \<Rightarrow> int \<Rightarrow> real list list \<Rightarrow> unit io" where
  "epoch_render E c model train_dataset epoch seen_camera_poses =
     (if render_interval (cfg_training c) = 0 then io_raise ZeroDivisionError
      else if epoch mod render_interval (cfg_training c) = 0 \<and> epoch > 0
        then no_grad (render_body E c model train_dataset epoch seen_camera_poses)
      else io_return ())"

subsection \<open>The loop over the epochs\<close>

text \<open>Lines 153 to 243: one epoch. The data loader yields the examples of the
  dataset one at a time in a random order.\<close>

definition train_epoch ::
  "'c externals \<Rightarrow> cfg \<Rightarrow> 'c Model \<Rightarrow> int list \<Rightarrow>
     sample list \<Rightarrow> string \<Rightarrow> optimizer \<times> lr_scheduler \<times> real list list \<Rightarrow> int \<Rightarrow>
     (optimizer \<times> lr_scheduler \<times> real list list) io" where
  "train_epoch E c model image_size train_dataset ckpt_path st epoch =
     (case st of (opt, sched, seen_camera_poses) \<Rightarrow>
        io_bind (\<lambda>w. (w\<lparr>rng := rng w + 1\<rparr>, Inr (ext_shuffle E (rng w) train_dataset)))
          (\<lambda>batches.
        io_bind (train_batches E c model image_size epoch (opt, seen_camera_poses) batches)
          (\<lambda>(opt1, seen1).
        io_bind (io_lift (ext_scheduler_step E sched opt1 (lr_lambda E c)))
          (\<lambda>(opt2, sched2).
        io_bind (epoch_checkpoint c ckpt_path opt2 epoch) (\<lambda>_.
        io_bind (epoch_render E c model train_dataset epoch seen1) (\<lambda>_.
        io_return (opt2, sched2, seen1)))))))"

fun train_epochs ::
  "'c externals \<Rightarrow> cfg \<Rightarrow> 'c Model \<Rightarrow> int list \<Rightarrow>
     sample list \<Rightarrow> string \<Rightarrow> optimizer \<times> lr_scheduler \<times> real list list \<Rightarrow> int list \<Rightarrow>
     (optimizer \<times> lr_scheduler \<times> real list list) io" where
  "train_epochs E c model image_size train_dataset ckpt_path st [] w = (w, Inr st)"
| "train_epochs E c model image_size train_dataset ckpt_path st (epoch # epochs) w =
     io_bind (train_epoch E c model image_size train_dataset ckpt_path st epoch)
       (\<lambda>st1. train_epochs E c model image_size train_dataset ckpt_path st1 epochs) w"

text \<open>\<open>xs[i]\<close> of a Python list.\<close>

definition py_getitem :: "'a list \<Rightarrow> int \<Rightarrow> py_error + 'a" where
  "py_getitem xs i =
     (case py_index (length xs) i of Inl e \<Rightarrow> Inl e | Inr k \<Rightarrow> Inr (xs ! k))"

text \<open>
  \<open>train\<close>, lines 126 to 243: the image size, \<open>create_model\<close>, and the rest,
  \<open>train_loop\<close>, lines 134 to 243. \<open>range(start_epoch, num_epochs)\<close> is the list of
  integers from \<open>start_epoch\<close> to \<open>num_epochs - 1\<close>.
\<close>

definition train_loop ::
  "'c externals \<Rightarrow> cfg \<Rightarrow> int list \<Rightarrow> 'c Model \<times> optimizer \<times> lr_scheduler \<times> int \<times> string \<Rightarrow>
     unit io" where
  "train_loop E c image_size created =
     (case created of (model, opt, sched, start_epoch, ckpt_path) \<Rightarrow>
        io_bind (io_lift (ext_get_dataset E (traj_data_root (cfg_data c)) image_size))
          (\<lambda>(train_dataset, val_dataset).
        io_bind (train_epochs E c model image_size train_dataset ckpt_path
                   (opt, sched, []) [start_epoch..num_epochs (cfg_training c) - 1])
          (\<lambda>_. io_return ())))"

definition train :: "'c externals \<Rightarrow> cfg \<Rightarrow> unit io" where
  "train E c =
     io_bind (io_lift (py_getitem (image_shape (cfg_data c)) 1)) (\<lambda>s1.
     io_bind (io_lift (py_getitem (image_shape (cfg_data c)) 0)) (\<lambda>s0.
     io_bind (create_model E c) (train_loop E c [s1, s0])))"


section \<open>What the claims speak of\<close>

text \<open>The poses passed to \<open>get_rays_from_pixels\<close>, in the order of the calls.\<close>

fun call_pose :: "call \<Rightarrow> real list list" where
  "call_pose (GetRays pc cam X pose debug) = [pose]"
| "call_pose c = []"

definition ray_poses :: "call list \<Rightarrow> real list list" where
  "ray_poses cs = concat (map call_pose cs)"

text \<open>The calls one frame of \<open>render_images\<close> records when it ends without exception.\<close>

definition frame_calls ::
  "'c Model \<Rightarrow> real list \<Rightarrow> bool \<Rightarrow> string \<Rightarrow> real \<Rightarrow> pixel_coords \<Rightarrow> bool \<Rightarrow> RayBundle \<Rightarrow>
     rgb ndarray2 \<Rightarrow> call list" where
  "frame_calls m translation save file_prefix theta pc g rb img =
     [GetPixels (camera_model m) (valid_mask m) True,
      GetRays pc (camera_model m) (X_ned_cam m)
        (translation @ from_euler_z_degrees_as_quat theta) False,
      Forward g rb]
     @ (if save then [ImSave file_prefix theta img] else [])"

text \<open>
  The conditions under which no statement of a frame raises: the pixel enumeration and
  the ray generation return, the renderer returns one colour per valid pixel, and the
  mask has the shape \<open>(W, H)\<close> of the image.
\<close>

definition helpers_succeed :: "'c externals \<Rightarrow> 'c Model \<Rightarrow> bool" where
  "helpers_succeed E m =
     ((\<exists>pcxy. ext_get_pixels_from_image E (camera_model m) (valid_mask m) True = Inr pcxy)
    \<and> (\<forall>pc pose. \<exists>rb.
          ext_get_rays_from_pixels E pc (camera_model m) (X_ned_cam m) pose False = Inr rb)
    \<and> (\<forall>t g r ps rb. \<exists>out.
          snd (ext_renderer E (renderer m) (sampler m) (implicit_fn m) t g r ps rb) = Inr out
        \<and> length (feature out) = count_true (entries (eq_1 (valid_mask m))))
    \<and> shape0 (valid_mask m) = ss_W (ss (camera_model m))
    \<and> shape1 (valid_mask m) = ss_H (ss (camera_model m)))"

text \<open>
  The mean squared error between the colours of the rays and the colours of the image
  at the pixels of the rays: pixel \<open>k\<close> is \<open>(x, y)\<close>, column \<open>x\<close> of row \<open>y\<close>, and the
  three channels of the image there are compared with the colour of ray \<open>k\<close>.
\<close>

definition squared_error :: "real ndarray3 \<Rightarrow> int \<times> int \<Rightarrow> rgb \<Rightarrow> real" where
  "squared_error img p colour =
     (case p of (x, y) \<Rightarrow> case colour of (r, g, b) \<Rightarrow>
        (r - at3 img 0 (nat y) (nat x))\<^sup>2
      + (g - at3 img 1 (nat y) (nat x))\<^sup>2
      + (b - at3 img 2 (nat y) (nat x))\<^sup>2)"

definition mse_at_pixels :: "real ndarray3 \<Rightarrow> pixel_coords \<Rightarrow> rgb list \<Rightarrow> real" where
  "mse_at_pixels img pixel_coords colours =
     sum_list (map2 (squared_error img) pixel_coords colours) / real (3 * length pixel_coords)"

text \<open>The calls one iteration of the training loop records when it ends without
  exception.\<close>

definition iteration_calls ::
  "cfg \<Rightarrow> 'c Model \<Rightarrow> int list \<Rightarrow> int \<Rightarrow> real list \<Rightarrow> pixel_coords \<Rightarrow> bool \<Rightarrow> RayBundle \<Rightarrow>
     torch_scalar \<Rightarrow> call list" where
  "iteration_calls c model image_size epoch pose pc g rb loss =
     [GetRandomPixels (batch_size (cfg_training c)) image_size
        (camera_model model) (valid_mask model)]
     @ (if cfg_debug c then [ShowMask (valid_mask model), ShowPixels pc] else [])
     @ [GetRays pc (camera_model model) (X_ned_cam model) pose (cfg_debug c),
        Forward g rb,
        SetDescription epoch loss]"

subsection \<open>What a statement may do\<close>

text \<open>
  \<open>io_spec P G m Q\<close>: from a state that satisfies \<open>P\<close>, the statement \<open>m\<close> ends, with a
  result or an exception, in a state that satisfies \<open>P\<close>; it only adds calls to the
  record, each of which satisfies \<open>G\<close>; and a result satisfies \<open>Q\<close>.
\<close>

definition io_spec :: "(world \<Rightarrow> bool) \<Rightarrow> (call \<Rightarrow> bool) \<Rightarrow> 'a io \<Rightarrow> ('a \<Rightarrow> bool) \<Rightarrow> bool" where
  "io_spec P G m Q =
     (\<forall>w. P w \<longrightarrow>
        P (fst (m w))
      \<and> (\<exists>new. calls (fst (m w)) = calls w @ new \<and> list_all G new)
      \<and> (\<forall>x. snd (m w) = Inr x \<longrightarrow> Q x))"

text \<open>A property of the state that does not depend on the recorded calls, on the
  state of the random generators or on whether gradient tracking is enabled.\<close>

definition log_free :: "(world \<Rightarrow> bool) \<Rightarrow> bool" where
  "log_free P = (\<forall>w cs r. P (w\<lparr>calls := cs\<rparr>) = P w \<and> P (w\<lparr>rng := r\<rparr>) = P w)"

text \<open>
  The calls a training run may record once its model is constructed, for the camera
  \<open>cam\<close> and the mask \<open>mk\<close> of the model: none computes a mask, each call that takes a
  mask takes \<open>mk\<close>, and each pose passed to the ray generation satisfies \<open>D\<close>.
\<close>

fun allowed_call :: "LinearSphere \<Rightarrow> int ndarray2 \<Rightarrow> (real list \<Rightarrow> bool) \<Rightarrow> call \<Rightarrow> bool" where
  "allowed_call cam mk D (GetValidMask cam1) = False"
| "allowed_call cam mk D (GetRandomPixels n image_size cam1 vm) = (cam1 = cam \<and> vm = mk)"
| "allowed_call cam mk D (GetPixels cam1 vm filter_valid) = (cam1 = cam \<and> vm = mk)"
| "allowed_call cam mk D (ShowMask vm) = (vm = mk)"
| "allowed_call cam mk D (GetRays pc cam1 X pose debug) = (cam1 = cam \<and> D pose)"
| "allowed_call cam mk D c = True"

text \<open>The poses the data loader can yield for a dataset, and the poses of the
  pipeline: those, and the poses \<open>render_images\<close> builds from the first three values of
  one of them and a quaternion.\<close>

definition loader_pose :: "'c externals \<Rightarrow> sample list \<Rightarrow> real list \<Rightarrow> bool" where
  "loader_pose E dataset pose = (\<exists>r img. (img, pose) \<in> set (ext_shuffle E r dataset))"

definition pipeline_pose :: "(real list \<Rightarrow> bool) \<Rightarrow> real list \<Rightarrow> bool" where
  "pipeline_pose D pose =
     (D pose \<or> (\<exists>p theta. D p \<and> pose = take 3 p @ from_euler_z_degrees_as_quat theta))"

text \<open>The poses the data loader of a training run can yield: those of the training
  dataset \<open>get_dataset\<close> returns for the configuration.\<close>

definition train_pose :: "'c externals \<Rightarrow> cfg \<Rightarrow> real list \<Rightarrow> bool" where
  "train_pose E c pose =
     (\<exists>image_size train_dataset val_dataset.
        ext_get_dataset E (traj_data_root (cfg_data c)) image_size
          = Inr (train_dataset, val_dataset)
      \<and> loader_pose E train_dataset pose)"




text \<open>A property of the parameters that the renderer, \<open>render_images_in_poses\<close> and
  the step of the optimizer keep.\<close>

definition preserved_by :: "'c externals \<Rightarrow> (real list list \<Rightarrow> bool) \<Rightarrow> bool" where
  "preserved_by E Q =
     ((\<forall>r s v t g seed ps rb. Q ps \<longrightarrow> Q (fst (ext_renderer E r s v t g seed ps rb)))
    \<and> (\<forall>m ds n fix ps seed. Q ps \<longrightarrow> Q (fst (ext_render_images_in_poses E m ds n fix ps seed)))
    \<and> (\<forall>opt ps gs. Q ps \<longrightarrow> Q (snd (ext_optimizer_step E opt ps gs))))"


section \<open>Loading the two modules\<close>

text \<open>
  The statements a module executes when it is loaded, as far as they bind names:
  \<open>import m as n\<close>, \<open>from m import names\<close>, a \<open>def\<close> or \<open>class\<close>, and any other
  statement. Python runs them in order and stops at the first exception.
\<close>

datatype stmt =
    Import string string
  | FromImport string "string list"
  | Def string
  | Other

text \<open>The names a statement binds when it succeeds.\<close>

fun binds :: "stmt \<Rightarrow> string list" where
  "binds (Import m n) = [n]"
| "binds (FromImport m names) = names"
| "binds (Def n) = [n]"
| "binds Other = []"

text \<open>
  \<open>load m\<close> is the result of importing the module \<open>m\<close>: an exception, or the names
  that can be imported from it. \<open>from m import n\<close> raises \<open>ImportError\<close> (cannot import
  name \<open>n\<close> from \<open>m\<close>) for the first name \<open>m\<close> does not provide.
\<close>

fun exec_stmt :: "(string \<Rightarrow> py_error + string list) \<Rightarrow> stmt \<Rightarrow> string list \<Rightarrow> py_error + string list"
  where
  "exec_stmt load (Import m n) ns =
     (case load m of Inl e \<Rightarrow> Inl e | Inr provided \<Rightarrow> Inr (ns @ [n]))"
| "exec_stmt load (FromImport m names) ns =
     (case load m of
        Inl e \<Rightarrow> Inl e
      | Inr provided \<Rightarrow>
          (case find (\<lambda>n. n \<notin> set provided) names of
             Some n \<Rightarrow> Inl (ImportError n m)
           | None \<Rightarrow> Inr (ns @ names)))"
| "exec_stmt load (Def n) ns = Inr (ns @ [n])"
| "exec_stmt load Other ns = Inr ns"

fun exec_module ::
  "(string \<Rightarrow> py_error + string list) \<Rightarrow> stmt list \<Rightarrow> string list \<Rightarrow> py_error + string list"
  where
  "exec_module load [] ns = Inr ns"
| "exec_module load (s # sts) ns =
     (case exec_stmt load s ns of Inl e \<Rightarrow> Inl e | Inr ns1 \<Rightarrow> exec_module load sts ns1)"

text \<open>\<open>utils/render.py\<close>, lines 1 to 53: its imports and its two functions.\<close>

definition utils_render_source :: "stmt list" where
  "utils_render_source =
     [Import ''sys'' ''sys'',
      FromImport ''scipy.spatial.transform'' [''Rotation''],
      Other,
      Import ''matplotlib.pyplot'' ''plt'',
      Import ''numpy'' ''np'',
      Import ''torch'' ''torch'',
      FromImport ''pytorch3d.renderer'' [''PerspectiveCameras''],
      FromImport ''pytorch3d.renderer'' [''look_at_view_transform''],
      FromImport ''fish_nerf.ray'' [''get_pixels_from_image''],
      FromImport ''fish_nerf.ray'' [''get_rays_from_pixels''],
      Def ''create_surround_cameras'',
      Def ''render_images'']"

text \<open>\<open>run.py\<close>: the imports of lines 2 to 23, line 25, the class and the four
  functions, and the call of \<open>main\<close> at the end.\<close>

definition run_source :: "stmt list" where
  "run_source =
     [Import ''os'' ''os'',
      Import ''random'' ''random'',
      Import ''hydra'' ''hydra'',
      Import ''imageio'' ''imageio'',
      Import ''numpy'' ''np'',
      Import ''torch'' ''torch'',
      Import ''tqdm'' ''tqdm'',
      FromImport ''omegaconf'' [''DictConfig''],
      Import ''matplotlib.pyplot'' ''plt'',
      FromImport ''fish_nerf.models'' [''volume_dict''],
      FromImport ''fish_nerf.ray''
        [''get_random_pixels_from_image'', ''get_rays_from_pixels'', ''sample_images_at_xy''],
      FromImport ''fish_nerf.renderer'' [''renderer_dict''],
      FromImport ''fish_nerf.sampler'' [''sampler_dict''],
      FromImport ''image_resampling.mvs_utils.camera_models'' [''LinearSphere''],
      FromImport ''image_resampling.mvs_utils.shape_struct'' [''ShapeStruct''],
      FromImport ''utils.dataset'' [''get_dataset'', ''trivial_collate''],
      FromImport ''utils.render''
        [''create_surround_cameras'', ''render_images'', ''render_images_in_poses''],
      Other,
      Def ''Model'',
      Def ''create_model'',
      Def ''train'',
      Def ''render'',
      Def ''main'',
      Other]"

text \<open>
  Every module but \<open>utils.render\<close> is outside the two files: \<open>installed m\<close> is
  \<open>None\<close> when it cannot be imported (\<open>ModuleNotFoundError\<close>, a subclass of
  \<open>ImportError\<close>) and the names it provides otherwise. \<open>utils.render\<close> provides the
  names its own statements bind.
\<close>

definition load_external :: "(string \<Rightarrow> string list option) \<Rightarrow> string \<Rightarrow> py_error + string list"
  where
  "load_external installed m =
     (case installed m of None \<Rightarrow> Inl (ModuleNotFoundError m) | Some provided \<Rightarrow> Inr provided)"

definition load_module :: "(string \<Rightarrow> string list option) \<Rightarrow> string \<Rightarrow> py_error + string list"
  where
  "load_module installed m =
     (if m = ''utils.render''
      then exec_module (load_external installed) utils_render_source []
      else load_external installed m)"

definition load_run :: "(string \<Rightarrow> string list option) \<Rightarrow> py_error + string list" where
  "load_run installed = exec_module (load_module installed) run_source []"

fun is_import_error :: "py_error \<Rightarrow> bool" where
  "is_import_error (ImportError n m) = True"
| "is_import_error (ModuleNotFoundError m) = True"
| "is_import_error e = False"

text \<open>Every import of the two files from a module outside them finds the module and
  the names it asks for.\<close>

fun import_available :: "(string \<Rightarrow> string list option) \<Rightarrow> stmt \<Rightarrow> bool" where
  "import_available installed (Import m n) = (installed m \<noteq> None)"
| "import_available installed (FromImport m names) =
     (m = ''utils.render'' \<or>
      (case installed m of None \<Rightarrow> False | Some provided \<Rightarrow> set names \<subseteq> set provided))"
| "import_available installed s = True"

definition externals_installed :: "(string \<Rightarrow> string list option) \<Rightarrow> bool" where
  "externals_installed installed =
     list_all (import_available installed) (utils_render_source @ run_source)"


section \<open>The compositing rule of the Renderer\<close>








section \<open>A small instance\<close>

text \<open>A camera of two by two pixels, two of them valid, with the functions outside
  the two files replaced by simple ones. The theorems are exercised on it.\<close>

definition example_mask :: "int ndarray2" where
  "example_mask = \<lparr>shape0 = 2, shape1 = 2, entries = [1, 0, 0, 1]\<rparr>"

definition example_camera :: LinearSphere where
  "example_camera = \<lparr>ls_fov_degree = 195, ss = \<lparr>ss_H = 2, ss_W = 2\<rparr>,
     in_to_tensor = False, out_to_numpy = False\<rparr>"

definition example_model :: "string Model" where
  "example_model = \<lparr>camera_model = example_camera, valid_mask = example_mask,
     X_ned_cam = [[0, 0, 1, 0], [1, 0, 0, 0], [0, 1, 0, 0], [0, 0, 0, 1]],
     implicit_fn = ''volume'', sampler = ''stratified'', renderer = ''volume''\<rparr>"

definition example_bundle :: RayBundle where
  "example_bundle = \<lparr>origins = [(0, 0, 0), (0, 0, 0)], directions = [(1, 0, 0), (0, 1, 0)],
     sample_points = [], sample_lengths = []\<rparr>"

definition example_optimizer :: optimizer where
  "example_optimizer = \<lparr>opt_lr = 1 / 10, opt_buffers = [], opt_last_epoch = 0\<rparr>"

definition example_image :: "real ndarray3" where
  "example_image = \<lparr>dim0 = 3, dim1 = 2, dim2 = 2,
     elems = [1, 0, 0, 1,  0, 1, 0, 0,  0, 0, 1, 0]\<rparr>"

definition example_externals :: "string externals" where
  "example_externals = \<lparr>
     ext_get_valid_mask = (\<lambda>cam. example_mask),
     ext_get_pixels_from_image = (\<lambda>cam vm fv. Inr ([(0, 0), (1, 1)], [(0, 0), (1, 1)])),
     ext_get_random_pixels_from_image = (\<lambda>r n sz cam vm. Inr ([(1, 1), (0, 0)], [(1, 1), (0, 0)])),
     ext_get_rays_from_pixels = (\<lambda>pc cam X pose dbg. Inr example_bundle),
     ext_renderer = (\<lambda>r s v t g seed ps rb. (ps, Inr \<lparr>feature = [(1, 0, 0), (0, 0, 1)]\<rparr>)),
     volume_dict = [''volume'' \<mapsto> (\<lambda>sec. Inr ''volume''), ''sdf'' \<mapsto> (\<lambda>sec. Inr ''sdf'')],
     sampler_dict = [''stratified'' \<mapsto> (\<lambda>sec. Inr ''stratified'')],
     renderer_dict = [''volume'' \<mapsto> (\<lambda>sec. Inr ''volume'')],
     ext_initial_parameters = (\<lambda>v s r. [[1 / 2]]),
     ext_get_dataset = (\<lambda>root sz. Inr ([(example_image, [1, 2, 3, 0, 0, 0, 1])], [])),
     ext_shuffle = (\<lambda>r xs. xs),
     ext_randbelow = (\<lambda>r n. 0),
     ext_backward = (\<lambda>r s v ps rb gt. map (map (\<lambda>x. 1)) ps),
     ext_Adam = (\<lambda>ps l. Inr (example_optimizer\<lparr>opt_lr := l\<rparr>)),
     ext_optimizer_load_state_dict = (\<lambda>opt sd. sd),
     ext_optimizer_step = (\<lambda>opt ps gs.
        (opt, case gs of None \<Rightarrow> ps
                 | Some g \<Rightarrow> map2 (map2 (\<lambda>x d. x - opt_lr opt * d)) ps g)),
     ext_LambdaLR = (\<lambda>opt f e. Inr (opt, \<lparr>sched_last_epoch = e + 1, sched_base_lr = opt_lr opt\<rparr>)),
     ext_scheduler_step = (\<lambda>sched opt f.
        Inr (opt, sched\<lparr>sched_last_epoch := sched_last_epoch sched + 1\<rparr>)),
     ext_render_images_in_poses = (\<lambda>m ds n fix ps r. (ps, Inr [])),
     ext_original_cwd = ''/work'',
     ext_path_join = (\<lambda>a b. a @ ''/'' @ b),
     ext_path_dirname = (\<lambda>p. ''/work''),
     ext_pow = (\<lambda>g x. Inr (g powr x))\<rparr>"

definition example_world :: world where
  "example_world = \<lparr>parameters = [[1 / 2]], grads = None, train_mode = False,
     grad_enabled = True, rng = 0, files = Map.empty, calls = []\<rparr>"

definition example_cfg :: cfg where
  "example_cfg = \<lparr>
     cfg_data = \<lparr>fov_degree = 195, image_shape = [2, 2], traj_data_root = ''data''\<rparr>,
     cfg_implicit_function = \<lparr>type = ''volume'', options = []\<rparr>,
     cfg_sampler = \<lparr>type = ''stratified'', options = [(''n_pts_per_ray'', 8)]\<rparr>,
     cfg_renderer = \<lparr>type = ''volume'', options = []\<rparr>,
     cfg_training = \<lparr>batch_size = 2, checkpoint_path = ''ckpt.pth'', resume = True,
       lr = 1 / 10, lr_scheduler_gamma = 1 / 2, lr_scheduler_step_size = 10,
       num_epochs = 2, checkpoint_interval = 1, render_interval = 1\<rparr>,
     cfg_debug = False, cfg_vis_style = ''random_pose'', cfg_type = ''train''\<rparr>"

text \<open>An installation in which every module exists and provides every name the two
  files import from outside.\<close>

definition example_installed :: "string \<Rightarrow> string list option" where
  "example_installed m =
     Some [''Rotation'', ''PerspectiveCameras'', ''look_at_view_transform'',
           ''get_pixels_from_image'', ''get_rays_from_pixels'', ''DictConfig'',
           ''volume_dict'', ''get_random_pixels_from_image'', ''sample_images_at_xy'',
           ''renderer_dict'', ''sampler_dict'', ''LinearSphere'', ''ShapeStruct'',
           ''get_dataset'', ''trivial_collate'']"



subsection \<open>The angles of a sweep\<close>

lemma linspace_length:
  "linspace a b num = Inr ts \<Longrightarrow> length ts = nat num"
  by (auto simp: linspace_def Let_def split: if_splits)



section \<open>Claims about \<open>create_surround_cameras\<close>\<close>




section \<open>Lemmas: scattering and statements with effects\<close>

lemma scatter_length:
  "length (scatter bs xs vs) = length xs"
  by (induction bs xs vs rule: scatter.induct) auto

lemma scatter_nth:
  "length bs = length xs \<Longrightarrow> count_true bs \<le> length vs \<Longrightarrow> k < length xs \<Longrightarrow>
   scatter bs xs vs ! k = (if bs ! k then vs ! count_true (take k bs) else xs ! k)"
proof (induction bs xs vs arbitrary: k rule: scatter.induct)
  case (1 bs x xs v vs)
  then show ?case
    by (cases k) (auto simp: count_true_def)
next
  case (2 bs x xs vs)
  then show ?case
    by (cases k) (auto simp: count_true_def)
qed (auto simp: count_true_def)

lemma ray_poses_append [simp]:
  "ray_poses (cs @ ds) = ray_poses cs @ ray_poses ds"
  by (simp add: ray_poses_def)

lemma ray_poses_simps [simp]:
  "ray_poses [] = []"
  "ray_poses (c # cs) = call_pose c @ ray_poses cs"
  by (simp_all add: ray_poses_def)


lemma io_bind_run:
  "m w = (w1, Inr x) \<Longrightarrow> io_bind m f w = f x w1"
  by (simp add: io_bind_def)

lemma render_frame_Inr:
  assumes "render_frame E m translation save file_prefix theta w = (w', Inr img)"
  shows "\<exists>pc xy rb out.
           ext_get_pixels_from_image E (camera_model m) (valid_mask m) True = Inr (pc, xy)
         \<and> ext_get_rays_from_pixels E pc (camera_model m) (X_ned_cam m)
               (translation @ from_euler_z_degrees_as_quat theta) False = Inr rb
         \<and> snd (ext_renderer E (renderer m) (sampler m) (implicit_fn m)
                  (train_mode w) (grad_enabled w) (rng w) (parameters w) rb) = Inr out
         \<and> assemble_image m (feature out) = Inr img
         \<and> w' = w\<lparr>parameters := fst (ext_renderer E (renderer m) (sampler m) (implicit_fn m)
                                     (train_mode w) (grad_enabled w) (rng w) (parameters w) rb),
                   rng := rng w + 1,
                   calls := calls w @
                     frame_calls m translation save file_prefix theta pc (grad_enabled w) rb img\<rparr>"
  using assms
  by (auto simp: render_frame_def Let_def io_bind_def io_lift_def io_return_def record_call_def
      get_pixels_from_image_def get_rays_from_pixels_def Model_forward_def imsave_def
      frame_calls_def
      split: prod.splits sum.splits if_splits)




lemma assemble_image_total:
  assumes "shape0 (valid_mask m) = ss_W (ss (camera_model m))"
    and "shape1 (valid_mask m) = ss_H (ss (camera_model m))"
    and "length colours = count_true (entries (eq_1 (valid_mask m)))"
  shows "\<exists>img. assemble_image m colours = Inr img"
  using assms by (simp add: assemble_image_def masked_assign_def eq_1_def zeros3_def)

lemma render_frame_total:
  assumes "helpers_succeed E m"
  shows "\<exists>w' img. render_frame E m translation save file_prefix theta w = (w', Inr img)"
proof -
  from assms obtain pc xy where
    pix: "ext_get_pixels_from_image E (camera_model m) (valid_mask m) True = Inr (pc, xy)"
    by (auto simp: helpers_succeed_def)
  from assms obtain rb where
    rays: "ext_get_rays_from_pixels E pc (camera_model m) (X_ned_cam m)
             (translation @ from_euler_z_degrees_as_quat theta) False = Inr rb"
    unfolding helpers_succeed_def by blast
  let ?w1 = "w\<lparr>calls := calls w @ [GetPixels (camera_model m) (valid_mask m) True]\<rparr>"
  let ?w2 = "?w1\<lparr>calls := calls ?w1 @ [GetRays pc (camera_model m) (X_ned_cam m)
             (translation @ from_euler_z_degrees_as_quat theta) False]\<rparr>"
  from assms obtain out where
    fwd: "snd (ext_renderer E (renderer m) (sampler m) (implicit_fn m)
                 (train_mode ?w2) (grad_enabled ?w2) (rng ?w2) (parameters ?w2) rb) = Inr out"
    and len: "length (feature out) = count_true (entries (eq_1 (valid_mask m)))"
    unfolding helpers_succeed_def by blast
  from assms len obtain img where img: "assemble_image m (feature out) = Inr img"
    using assemble_image_total [of m "feature out"] by (auto simp: helpers_succeed_def)
  show ?thesis
    using pix rays fwd img
    by (simp add: render_frame_def Let_def io_bind_def io_lift_def io_return_def record_call_def
        get_pixels_from_image_def get_rays_from_pixels_def Model_forward_def imsave_def
        split: prod.splits sum.splits)
qed





section \<open>Claims about \<open>render_images\<close>\<close>


lemma example_helpers_succeed:
  "helpers_succeed example_externals example_model"
  by (simp add: helpers_succeed_def example_externals_def example_model_def example_mask_def
      example_camera_def eq_1_def count_true_def)


subsection \<open>Image assembly\<close>

lemma count_true_take_less:
  "k < length bs \<Longrightarrow> bs ! k \<Longrightarrow> count_true (take k bs) < count_true bs"
proof (induction bs arbitrary: k)
  case Nil
  then show ?case by simp
next
  case (Cons b bs)
  then show ?case
    by (cases k) (auto simp: count_true_def)
qed

lemma flat_index_less:
  fixes i j :: nat
  assumes "i < d0" and "j < d1"
  shows "i * d1 + j < d0 * d1"
proof -
  have "i * d1 + j < i * d1 + d1"
    using assms by simp
  also have "\<dots> = Suc i * d1"
    by simp
  also have "\<dots> \<le> d0 * d1"
    using assms by (intro mult_le_mono1) simp
  finally show ?thesis .
qed

lemma masked_assign_entry:
  assumes wfi: "wf_ndarray2 a" and wfm: "wf_ndarray2 b"
    and ok: "masked_assign a b vs = Inr r"
    and i: "i < shape0 a" and j: "j < shape1 a"
  shows "at2 r i j =
           (if at2 b i j
            then vs ! (if length vs = count_true (entries b)
                       then count_true (take (i * shape1 a + j) (entries b)) else 0)
            else at2 a i j)"
proof -
  from ok have sh: "shape0 b = shape0 a" "shape1 b = shape1 a"
    by (auto simp: masked_assign_def split: if_splits)
  let ?k = "i * shape1 a + j"
  have k: "?k < length (entries a)"
    using wfi flat_index_less [OF i j] by (simp add: wf_ndarray2_def)
  have len: "length (entries b) = length (entries a)"
    using wfi wfm sh by (simp add: wf_ndarray2_def)
  show ?thesis
  proof (cases "length vs = count_true (entries b)")
    case True
    with ok have r: "r = a\<lparr>entries := scatter (entries b) (entries a) vs\<rparr>"
      by (simp add: masked_assign_def sh)
    show ?thesis
      using True scatter_nth [OF len _ k, of vs]
      by (simp add: r at2_def sh)
  next
    case False
    with ok have one: "length vs = 1"
      and r: "r = a\<lparr>entries := scatter (entries b) (entries a)
                 (replicate (count_true (entries b)) (hd vs))\<rparr>"
      by (auto simp: masked_assign_def sh split: if_splits)
    from one have hd: "hd vs = vs ! 0"
      by (cases vs) auto
    have "scatter (entries b) (entries a) (replicate (count_true (entries b)) (hd vs)) ! ?k =
        (if entries b ! ?k
         then replicate (count_true (entries b)) (hd vs) ! count_true (take ?k (entries b))
         else entries a ! ?k)"
      by (rule scatter_nth [OF len _ k]) simp
    moreover have "entries b ! ?k \<Longrightarrow>
        replicate (count_true (entries b)) (hd vs) ! count_true (take ?k (entries b)) = vs ! 0"
      using count_true_take_less [of ?k "entries b"] k len by (simp add: hd)
    ultimately show ?thesis
      using False by (simp add: r at2_def sh)
  qed
qed

lemma masked_assign_shape:
  "masked_assign a b vs = Inr r \<Longrightarrow>
     shape0 r = shape0 a \<and> shape1 r = shape1 a \<and> length (entries r) = length (entries a)"
  by (auto simp: masked_assign_def scatter_length split: if_splits)

lemma assemble_image_cells:
  assumes wf: "wf_ndarray2 (valid_mask m)"
    and ok: "assemble_image m colours = Inr img"
  shows "shape0 img = ss_W (ss (camera_model m))
       \<and> shape1 img = ss_H (ss (camera_model m))
       \<and> wf_ndarray2 img
       \<and> (\<forall>i < ss_W (ss (camera_model m)). \<forall>j < ss_H (ss (camera_model m)).
             at2 img i j =
               (if at2 (valid_mask m) i j = 1
                then colours ! (if length colours = count_true (entries (eq_1 (valid_mask m)))
                                then count_true (take (i * ss_H (ss (camera_model m)) + j)
                                                   (entries (eq_1 (valid_mask m))))
                                else 0)
                else (0, 0, 0)))"
proof -
  let ?W = "ss_W (ss (camera_model m))" and ?H = "ss_H (ss (camera_model m))"
  let ?z = "zeros3 ?W ?H" and ?b = "eq_1 (valid_mask m)"
  from ok have ma: "masked_assign ?z ?b colours = Inr img"
    by (simp add: assemble_image_def)
  have wfz: "wf_ndarray2 ?z"
    by (simp add: wf_ndarray2_def zeros3_def)
  have wfb: "wf_ndarray2 ?b"
    using wf by (simp add: wf_ndarray2_def eq_1_def)
  have shz: "shape0 ?z = ?W" "shape1 ?z = ?H"
    by (simp_all add: zeros3_def)
  from ma have shb: "shape0 (valid_mask m) = ?W" "shape1 (valid_mask m) = ?H"
    by (auto simp: masked_assign_def eq_1_def zeros3_def split: if_splits)
  from masked_assign_shape [OF ma] wfz have shape: "shape0 img = ?W" "shape1 img = ?H"
    "wf_ndarray2 img"
    by (simp_all add: wf_ndarray2_def shz)
  have cell: "at2 img i j =
      (if at2 (valid_mask m) i j = 1
       then colours ! (if length colours = count_true (entries ?b)
                       then count_true (take (i * ?H + j) (entries ?b)) else 0)
       else (0, 0, 0))" if i: "i < ?W" and j: "j < ?H" for i j
  proof -
    have k: "i * ?H + j < ?W * ?H"
      by (rule flat_index_less [OF i j])
    have len: "length (entries (valid_mask m)) = ?W * ?H"
      using wf shb by (simp add: wf_ndarray2_def)
    have b: "at2 ?b i j = (at2 (valid_mask m) i j = 1)"
      using k len by (simp add: at2_def eq_1_def shb)
    have z: "at2 ?z i j = (0, 0, 0)"
      using k by (simp add: at2_def zeros3_def)
    from masked_assign_entry [OF wfz wfb ma, of i j] i j show ?thesis
      by (simp add: shz b z)
  qed
  from shape cell show ?thesis
    by blast
qed

text \<open>
  C4. For every rendered frame, that is every frame \<open>render_frame\<close> returns, the image
  is a grid of \<open>W\<close> by \<open>H\<close> pixels assembled from the colours \<open>out["feature"]\<close> the
  renderer returned for the rays of the frame: a pixel where the validity mask equals 1
  holds the colour of its ray, the rays being numbered in row-major order of the valid
  pixels, and every other pixel keeps the background \<open>(0, 0, 0)\<close>. (When the renderer
  returns a single colour and the mask has another number of valid pixels, NumPy
  broadcasts that colour to every valid pixel.)
\<close>

theorem rendered_frame_scatter:
  assumes wf: "wf_ndarray2 (valid_mask m)"
    and frame: "render_frame E m translation save file_prefix theta w = (w', Inr img)"
  shows "\<exists>pc xy rb out.
           ext_get_pixels_from_image E (camera_model m) (valid_mask m) True = Inr (pc, xy)
         \<and> ext_get_rays_from_pixels E pc (camera_model m) (X_ned_cam m)
               (translation @ from_euler_z_degrees_as_quat theta) False = Inr rb
         \<and> snd (ext_renderer E (renderer m) (sampler m) (implicit_fn m)
                  (train_mode w) (grad_enabled w) (rng w) (parameters w) rb) = Inr out
         \<and> shape0 img = ss_W (ss (camera_model m))
         \<and> shape1 img = ss_H (ss (camera_model m))
         \<and> wf_ndarray2 img
         \<and> (\<forall>i < ss_W (ss (camera_model m)). \<forall>j < ss_H (ss (camera_model m)).
               at2 img i j =
                 (if at2 (valid_mask m) i j = 1
                  then feature out !
                         (if length (feature out) = count_true (entries (eq_1 (valid_mask m)))
                          then count_true (take (i * ss_H (ss (camera_model m)) + j)
                                             (entries (eq_1 (valid_mask m))))
                          else 0)
                  else (0, 0, 0)))"
proof -
  from render_frame_Inr [OF frame] obtain pc xy rb out where
    pix: "ext_get_pixels_from_image E (camera_model m) (valid_mask m) True = Inr (pc, xy)"
    and rays: "ext_get_rays_from_pixels E pc (camera_model m) (X_ned_cam m)
                 (translation @ from_euler_z_degrees_as_quat theta) False = Inr rb"
    and fwd: "snd (ext_renderer E (renderer m) (sampler m) (implicit_fn m)
                (train_mode w) (grad_enabled w) (rng w) (parameters w) rb) = Inr out"
    and asm: "assemble_image m (feature out) = Inr img"
    by blast
  from pix rays fwd assemble_image_cells [OF wf asm] show ?thesis
    by blast
qed

text \<open>The theorem on the small instance: the frame of angle 0 has the second colour
  at the pixel \<open>[1, 1]\<close> and the background at \<open>[0, 1]\<close>.\<close>

theorem rendered_frame_scatter_witness:
  "wf_ndarray2 (valid_mask example_model)
   \<and> (\<exists>w' img. render_frame example_externals example_model [1, 2, 3] False [] 0 example_world
                  = (w', Inr img)
         \<and> shape0 img = 2 \<and> shape1 img = 2
         \<and> at2 img 0 0 = (1, 0, 0) \<and> at2 img 0 1 = (0, 0, 0)
         \<and> at2 img 1 0 = (0, 0, 0) \<and> at2 img 1 1 = (0, 0, 1))"
proof -
  have wf: "wf_ndarray2 (valid_mask example_model)"
    by (simp add: wf_ndarray2_def example_model_def example_mask_def)
  from render_frame_total [OF example_helpers_succeed] obtain w' img where
    frame: "render_frame example_externals example_model [1, 2, 3] False [] 0 example_world
              = (w', Inr img)"
    by blast
  from rendered_frame_scatter [OF wf frame] obtain out where
    sh: "shape0 img = ss_W (ss (camera_model example_model))"
            "shape1 img = ss_H (ss (camera_model example_model))"
    and out: "\<exists>rb. snd (ext_renderer example_externals (renderer example_model)
                 (sampler example_model) (implicit_fn example_model) (train_mode example_world)
                 (grad_enabled example_world) (rng example_world) (parameters example_world)
                 rb) = Inr out"
    and cells: "\<forall>i < ss_W (ss (camera_model example_model)).
        \<forall>j < ss_H (ss (camera_model example_model)).
          at2 img i j =
            (if at2 (valid_mask example_model) i j = 1
             then feature out !
                    (if length (feature out)
                          = count_true (entries (eq_1 (valid_mask example_model)))
                     then count_true (take (i * ss_H (ss (camera_model example_model)) + j)
                                        (entries (eq_1 (valid_mask example_model))))
                     else 0)
             else (0, 0, 0))"
    by blast
  from out have feat: "feature out = [(1, 0, 0), (0, 0, 1)]"
    by (auto simp: example_externals_def)
  note ex = example_model_def example_mask_def example_camera_def eq_1_def at2_def
    count_true_def feat
  have c00: "at2 img 0 0 = (1, 0, 0)"
    using cells [rule_format, of 0 0] by (simp add: ex)
  have c01: "at2 img 0 1 = (0, 0, 0)"
    using cells [rule_format, of 0 1] by (simp add: ex)
  have c10: "at2 img 1 0 = (0, 0, 0)"
    using cells [rule_format, of 1 0] by (simp add: ex)
  have c11: "at2 img 1 1 = (0, 0, 1)"
    using cells [rule_format, of 1 1] by (simp add: ex)
  from sh have sh2: "shape0 img = 2" "shape1 img = 2"
    by (simp_all add: example_model_def example_camera_def)
  from wf frame sh2 c00 c01 c10 c11 show ?thesis
    by blast
qed


section \<open>Claims about loading \<open>run.py\<close>\<close>

lemma exec_stmt_binds:
  "exec_stmt load s ns = Inr ns1 \<Longrightarrow> ns1 = ns @ binds s"
  by (cases s) (auto split: sum.splits option.splits)

lemma exec_module_binds:
  "exec_module load sts ns = Inr ns1 \<Longrightarrow> ns1 = ns @ concat (map binds sts)"
proof (induction sts arbitrary: ns)
  case Nil
  then show ?case by simp
next
  case (Cons s sts)
  from Cons.prems obtain ns0 where
    first: "exec_stmt load s ns = Inr ns0" and rest: "exec_module load sts ns0 = Inr ns1"
    by (auto split: sum.splits)
  from exec_stmt_binds [OF first] Cons.IH [OF rest] show ?case
    by simp
qed

lemma exec_stmt_error:
  assumes "\<And>m e. load m = Inl e \<Longrightarrow> is_import_error e"
    and "exec_stmt load s ns = Inl e"
  shows "is_import_error e"
  using assms by (cases s) (auto split: sum.splits option.splits)

lemma exec_module_error:
  assumes "\<And>m e. load m = Inl e \<Longrightarrow> is_import_error e"
    and "exec_module load sts ns = Inl e"
  shows "is_import_error e"
  using assms(2)
proof (induction sts arbitrary: ns)
  case Nil
  then show ?case by simp
next
  case (Cons s sts)
  then show ?case
    using exec_stmt_error [OF assms(1)] by (auto split: sum.splits)
qed

lemma exec_module_append:
  "exec_module load (pre @ post) ns =
     (case exec_module load pre ns of Inl e \<Rightarrow> Inl e | Inr ns1 \<Rightarrow> exec_module load post ns1)"
  by (induction pre arbitrary: ns) (auto split: sum.splits)

lemma exec_stmt_available:
  assumes "import_available installed s"
    and "\<And>names. s \<noteq> FromImport ''utils.render'' names"
    and "\<And>n. s \<noteq> Import ''utils.render'' n"
  shows "exec_stmt (load_module installed) s ns = Inr (ns @ binds s)"
proof (cases s)
  case (Import m n)
  with assms show ?thesis
    by (auto simp: load_module_def load_external_def split: option.splits)
next
  case (FromImport m names)
  with assms have m: "m \<noteq> ''utils.render''"
    by auto
  from FromImport assms(1) m obtain provided where
    p: "installed m = Some provided" "set names \<subseteq> set provided"
    by (auto split: option.splits)
  then have "find (\<lambda>n. n \<notin> set provided) names = None"
    by (auto simp: find_None_iff)
  with FromImport m p show ?thesis
    by (simp add: load_module_def load_external_def)
qed simp_all

lemma exec_stmt_available_external:
  assumes "import_available installed s"
    and "\<And>names. s \<noteq> FromImport ''utils.render'' names"
    and "\<And>n. s \<noteq> Import ''utils.render'' n"
  shows "exec_stmt (load_external installed) s ns = Inr (ns @ binds s)"
proof (cases s)
  case (Import m n)
  with assms show ?thesis
    by (auto simp: load_external_def split: option.splits)
next
  case (FromImport m names)
  with assms have m: "m \<noteq> ''utils.render''"
    by auto
  from FromImport assms(1) m obtain provided where
    p: "installed m = Some provided" "set names \<subseteq> set provided"
    by (auto split: option.splits)
  then have "find (\<lambda>n. n \<notin> set provided) names = None"
    by (auto simp: find_None_iff)
  with FromImport p show ?thesis
    by (simp add: load_external_def)
qed simp_all

lemma exec_module_available:
  assumes "list_all (import_available installed) sts"
    and "\<And>s names. s \<in> set sts \<Longrightarrow> s \<noteq> FromImport ''utils.render'' names"
    and "\<And>s n. s \<in> set sts \<Longrightarrow> s \<noteq> Import ''utils.render'' n"
  shows "exec_module (load_module installed) sts ns = Inr (ns @ concat (map binds sts))"
  using assms
proof (induction sts arbitrary: ns)
  case Nil
  show ?case by simp
next
  case (Cons s sts)
  have "exec_stmt (load_module installed) s ns = Inr (ns @ binds s)"
    using Cons.prems by (intro exec_stmt_available) auto
  moreover have "exec_module (load_module installed) sts (ns @ binds s) =
      Inr ((ns @ binds s) @ concat (map binds sts))"
    using Cons.prems by (intro Cons.IH) auto
  ultimately show ?case
    by simp
qed

lemma exec_module_available_external:
  assumes "list_all (import_available installed) sts"
    and "\<And>s names. s \<in> set sts \<Longrightarrow> s \<noteq> FromImport ''utils.render'' names"
    and "\<And>s n. s \<in> set sts \<Longrightarrow> s \<noteq> Import ''utils.render'' n"
  shows "exec_module (load_external installed) sts ns = Inr (ns @ concat (map binds sts))"
  using assms
proof (induction sts arbitrary: ns)
  case Nil
  show ?case by simp
next
  case (Cons s sts)
  have "exec_stmt (load_external installed) s ns = Inr (ns @ binds s)"
    using Cons.prems by (intro exec_stmt_available_external) auto
  moreover have "exec_module (load_external installed) sts (ns @ binds s) =
      Inr ((ns @ binds s) @ concat (map binds sts))"
    using Cons.prems by (intro Cons.IH) auto
  ultimately show ?case
    by simp
qed

lemma load_external_error:
  "load_external installed m = Inl e \<Longrightarrow> is_import_error e"
  by (auto simp: load_external_def split: option.splits)

lemma load_module_error:
  "load_module installed m = Inl e \<Longrightarrow> is_import_error e"
  using exec_module_error [of "load_external installed" utils_render_source "[]" e]
    load_external_error [of installed]
  by (auto simp: load_module_def split: if_splits)

text \<open>The names \<open>utils/render.py\<close> binds.\<close>

lemma utils_render_names:
  "concat (map binds utils_render_source) =
     [''sys'', ''Rotation'', ''plt'', ''np'', ''torch'', ''PerspectiveCameras'',
      ''look_at_view_transform'', ''get_pixels_from_image'', ''get_rays_from_pixels'',
      ''create_surround_cameras'', ''render_images'']"
  by (simp add: utils_render_source_def)

lemma load_render_provides:
  assumes "load_module installed ''utils.render'' = Inr provided"
  shows "provided = concat (map binds utils_render_source)"
  using assms exec_module_binds [of "load_external installed" utils_render_source "[]" provided]
  by (simp add: load_module_def)

lemma line_23_fails:
  "\<exists>e. exec_stmt (load_module installed)
          (FromImport ''utils.render''
             [''create_surround_cameras'', ''render_images'', ''render_images_in_poses''])
          ns = Inl e
       \<and> is_import_error e
       \<and> (\<forall>provided. load_module installed ''utils.render'' = Inr provided \<longrightarrow>
             e = ImportError ''render_images_in_poses'' ''utils.render'')"
proof (cases "load_module installed ''utils.render''")
  case (Inl e)
  then show ?thesis
    using load_module_error [OF Inl] by simp
next
  case (Inr provided)
  from load_render_provides [OF Inr] show ?thesis
    using Inr by (simp add: utils_render_names)
qed

lemma run_source_split:
  "run_source = take 16 run_source @
     FromImport ''utils.render''
       [''create_surround_cameras'', ''render_images'', ''render_images_in_poses'']
     # drop 17 run_source"
  by (simp add: run_source_def)

text \<open>
  C8. Loading \<open>run.py\<close> always ends with an import error, whatever is installed: line
  23 asks \<open>utils.render\<close> for \<open>render_images_in_poses\<close>, which \<open>utils/render.py\<close> does not
  bind, so the statements that define \<open>train\<close>, \<open>render\<close> and \<open>main\<close> are never reached.
  When every other import of the two files succeeds, the error is that of line 23.
\<close>

theorem run_module_import_fails:
  "(\<exists>e. load_run installed = Inl e \<and> is_import_error e)
   \<and> (externals_installed installed \<longrightarrow>
        load_run installed = Inl (ImportError ''render_images_in_poses'' ''utils.render''))"
proof
  let ?line = "FromImport ''utils.render''
       [''create_surround_cameras'', ''render_images'', ''render_images_in_poses'']"
  have run: "load_run installed =
      (case exec_module (load_module installed) (take 16 run_source) [] of
         Inl e \<Rightarrow> Inl e
       | Inr ns1 \<Rightarrow>
           (case exec_stmt (load_module installed) ?line ns1 of
              Inl e \<Rightarrow> Inl e
            | Inr ns2 \<Rightarrow> exec_module (load_module installed) (drop 17 run_source) ns2))"
    unfolding load_run_def
    by (subst run_source_split) (simp add: exec_module_append split: sum.splits)
  show "\<exists>e. load_run installed = Inl e \<and> is_import_error e"
  proof (cases "exec_module (load_module installed) (take 16 run_source) []")
    case (Inl e)
    then have "is_import_error e"
      using exec_module_error [of "load_module installed" _ "[]" e] load_module_error
      by blast
    with Inl show ?thesis
      by (simp add: run)
  next
    case (Inr ns1)
    from line_23_fails [of installed ns1] obtain e where
      "exec_stmt (load_module installed) ?line ns1 = Inl e" "is_import_error e"
      by blast
    with Inr show ?thesis
      by (simp add: run)
  qed
  show "externals_installed installed \<longrightarrow>
      load_run installed = Inl (ImportError ''render_images_in_poses'' ''utils.render'')"
  proof
    assume inst: "externals_installed installed"
    then have r: "list_all (import_available installed) utils_render_source"
      and p: "list_all (import_available installed) (take 16 run_source)"
      by (auto simp: externals_installed_def list_all_iff dest: in_set_takeD)
    have "exec_module (load_external installed) utils_render_source [] =
        Inr ([] @ concat (map binds utils_render_source))"
      by (rule exec_module_available_external [OF r]) (auto simp: utils_render_source_def)
    then have loaded: "load_module installed ''utils.render'' =
        Inr (concat (map binds utils_render_source))"
      by (simp add: load_module_def)
    have pre: "exec_module (load_module installed) (take 16 run_source) [] =
        Inr ([] @ concat (map binds (take 16 run_source)))"
      by (rule exec_module_available [OF p]) (auto simp: run_source_def)
    from line_23_fails [of installed "[] @ concat (map binds (take 16 run_source))"] loaded
    have "exec_stmt (load_module installed) ?line ([] @ concat (map binds (take 16 run_source)))
        = Inl (ImportError ''render_images_in_poses'' ''utils.render'')"
      by auto
    with pre show "load_run installed =
        Inl (ImportError ''render_images_in_poses'' ''utils.render'')"
      by (simp add: run)
  qed
qed

text \<open>The theorem with every module installed and every name provided.\<close>

theorem run_module_import_fails_witness:
  "externals_installed example_installed
   \<and> load_run example_installed =
       Inl (ImportError ''render_images_in_poses'' ''utils.render'')"
proof -
  have inst: "externals_installed example_installed"
    by (simp add: externals_installed_def example_installed_def utils_render_source_def
        run_source_def)
  from run_module_import_fails [of example_installed] inst show ?thesis
    by blast
qed


section \<open>Claims about \<open>Model.__init__\<close>\<close>

lemma registry_build_Inr:
  "registry_build d section = Inr v \<longleftrightarrow>
     (\<exists>constructor. d (type section) = Some constructor \<and> constructor section = Inr v)"
  by (auto simp: registry_build_def split: option.splits)

lemma Model_init_Inr:
  assumes "Model_init E c w = (w', Inr m)"
  shows "registry_build (volume_dict E) (cfg_implicit_function c) = Inr (implicit_fn m)"
    and "registry_build (sampler_dict E) (cfg_sampler c) = Inr (sampler m)"
    and "registry_build (renderer_dict E) (cfg_renderer c) = Inr (renderer m)"
    and "camera_model m = \<lparr>ls_fov_degree = fov_degree (cfg_data c),
            ss = \<lparr>ss_H = 256, ss_W = 256\<rparr>, in_to_tensor = False, out_to_numpy = False\<rparr>"
    and "valid_mask m = ext_get_valid_mask E (camera_model m)"
    and "w' = w\<lparr>parameters :=
                   ext_initial_parameters E (implicit_fn m) (sampler m) (renderer m),
                 train_mode := True,
                 calls := calls w @ [GetValidMask (camera_model m)]\<rparr>"
  using assms
  by (auto simp: Model_init_def Let_def io_bind_def io_lift_def io_return_def record_call_def
      get_valid_mask_def split: prod.splits sum.splits)

lemma Model_init_run:
  assumes "registry_build (volume_dict E) (cfg_implicit_function c) = Inr v"
    and "registry_build (sampler_dict E) (cfg_sampler c) = Inr s"
    and "registry_build (renderer_dict E) (cfg_renderer c) = Inr r"
  shows "\<exists>w1 m1. Model_init E c w = (w1, Inr m1)
           \<and> implicit_fn m1 = v \<and> sampler m1 = s \<and> renderer m1 = r"
  using assms
  by (simp add: Model_init_def Let_def io_bind_def io_lift_def io_return_def record_call_def
      get_valid_mask_def)

text \<open>
  C3. For every configuration, each of the three components of a constructed model is
  what the constructor registered under the \<open>type\<close> of its configuration section
  returns for that section: the implicit volume through \<open>volume_dict\<close>, the sampler
  through \<open>sampler_dict\<close>, the renderer through \<open>renderer_dict\<close>. The constructor is
  found by the name alone. A \<open>type\<close> that \<open>volume_dict\<close> does not hold raises \<open>KeyError\<close>,
  and the model is constructed whenever the three registered constructors return.
\<close>

theorem Model_init_selects_by_type:
  "(Model_init E c w = (w', Inr m) \<longrightarrow>
      (\<exists>cv cs cr.
          volume_dict E (type (cfg_implicit_function c)) = Some cv
        \<and> cv (cfg_implicit_function c) = Inr (implicit_fn m)
        \<and> sampler_dict E (type (cfg_sampler c)) = Some cs
        \<and> cs (cfg_sampler c) = Inr (sampler m)
        \<and> renderer_dict E (type (cfg_renderer c)) = Some cr
        \<and> cr (cfg_renderer c) = Inr (renderer m)))
   \<and> (volume_dict E (type (cfg_implicit_function c)) = None \<longrightarrow>
        snd (Model_init E c w) = Inl (KeyError (type (cfg_implicit_function c))))
   \<and> (\<forall>cv cs cr v s r.
          volume_dict E (type (cfg_implicit_function c)) = Some cv
        \<and> cv (cfg_implicit_function c) = Inr v
        \<and> sampler_dict E (type (cfg_sampler c)) = Some cs
        \<and> cs (cfg_sampler c) = Inr s
        \<and> renderer_dict E (type (cfg_renderer c)) = Some cr
        \<and> cr (cfg_renderer c) = Inr r
        \<longrightarrow> (\<exists>w1 m1. Model_init E c w = (w1, Inr m1)
               \<and> implicit_fn m1 = v \<and> sampler m1 = s \<and> renderer m1 = r))"
proof (intro conjI impI allI)
  assume run: "Model_init E c w = (w', Inr m)"
  from Model_init_Inr(1-3) [OF run]
  show "\<exists>cv cs cr.
          volume_dict E (type (cfg_implicit_function c)) = Some cv
        \<and> cv (cfg_implicit_function c) = Inr (implicit_fn m)
        \<and> sampler_dict E (type (cfg_sampler c)) = Some cs
        \<and> cs (cfg_sampler c) = Inr (sampler m)
        \<and> renderer_dict E (type (cfg_renderer c)) = Some cr
        \<and> cr (cfg_renderer c) = Inr (renderer m)"
    by (simp add: registry_build_Inr)
next
  assume "volume_dict E (type (cfg_implicit_function c)) = None"
  then show "snd (Model_init E c w) = Inl (KeyError (type (cfg_implicit_function c)))"
    by (simp add: Model_init_def Let_def io_bind_def io_lift_def io_return_def record_call_def
        get_valid_mask_def registry_build_def)
next
  fix cv cs cr v s r
  assume "volume_dict E (type (cfg_implicit_function c)) = Some cv
        \<and> cv (cfg_implicit_function c) = Inr v
        \<and> sampler_dict E (type (cfg_sampler c)) = Some cs
        \<and> cs (cfg_sampler c) = Inr s
        \<and> renderer_dict E (type (cfg_renderer c)) = Some cr
        \<and> cr (cfg_renderer c) = Inr r"
  then have "registry_build (volume_dict E) (cfg_implicit_function c) = Inr v"
    and "registry_build (sampler_dict E) (cfg_sampler c) = Inr s"
    and "registry_build (renderer_dict E) (cfg_renderer c) = Inr r"
    by (auto simp: registry_build_Inr)
  then show "\<exists>w1 m1. Model_init E c w = (w1, Inr m1)
               \<and> implicit_fn m1 = v \<and> sampler m1 = s \<and> renderer m1 = r"
    by (rule Model_init_run)
qed

text \<open>
  The theorem on the small instance, whose \<open>volume_dict\<close> holds two variants: the
  configuration that names \<open>volume\<close> gets the first, and the same configuration with the
  name \<open>sdf\<close> gets the second.
\<close>

theorem Model_init_selects_by_type_witness:
  "(\<exists>w1 m1. Model_init example_externals example_cfg example_world = (w1, Inr m1)
        \<and> implicit_fn m1 = ''volume'' \<and> sampler m1 = ''stratified'' \<and> renderer m1 = ''volume'')
   \<and> (\<exists>w1 m1. Model_init example_externals
                 (example_cfg\<lparr>cfg_implicit_function := \<lparr>type = ''sdf'', options = []\<rparr>\<rparr>)
                 example_world = (w1, Inr m1)
        \<and> implicit_fn m1 = ''sdf'' \<and> sampler m1 = ''stratified'' \<and> renderer m1 = ''volume'')"
proof
  note run = Model_init_selects_by_type [of example_externals example_cfg example_world,
      THEN conjunct2, THEN conjunct2, rule_format,
      of "\<lambda>sec. Inr ''volume''" "''volume''" "\<lambda>sec. Inr ''stratified''" "''stratified''"
         "\<lambda>sec. Inr ''volume''" "''volume''"]
  show "\<exists>w1 m1. Model_init example_externals example_cfg example_world = (w1, Inr m1)
        \<and> implicit_fn m1 = ''volume'' \<and> sampler m1 = ''stratified'' \<and> renderer m1 = ''volume''"
    by (rule run) (simp add: example_externals_def example_cfg_def)
next
  let ?c = "example_cfg\<lparr>cfg_implicit_function := \<lparr>type = ''sdf'', options = []\<rparr>\<rparr>"
  note run = Model_init_selects_by_type [of example_externals ?c example_world,
      THEN conjunct2, THEN conjunct2, rule_format,
      of "\<lambda>sec. Inr ''sdf''" "''sdf''" "\<lambda>sec. Inr ''stratified''" "''stratified''"
         "\<lambda>sec. Inr ''volume''" "''volume''"]
  show "\<exists>w1 m1. Model_init example_externals ?c example_world = (w1, Inr m1)
        \<and> implicit_fn m1 = ''sdf'' \<and> sampler m1 = ''stratified'' \<and> renderer m1 = ''volume''"
    by (rule run) (simp add: example_externals_def example_cfg_def)
qed


section \<open>Claims about the compositing rule\<close>













section \<open>Claims about one iteration of the training loop\<close>

lemma tabulate2_shape [simp]:
  "shape0 (tabulate2 n m f) = n" "shape1 (tabulate2 n m f) = m"
  by (simp_all add: tabulate2_def)

lemma at2_tabulate2:
  assumes "i < n" and "j < m"
  shows "at2 (tabulate2 n m f) i j = f i j"
proof -
  have "i * m + j < n * m"
    using assms by (rule flat_index_less)
  then show ?thesis
    using assms by (simp add: at2_def tabulate2_def)
qed

lemma bc_at2_in_range:
  "i < shape0 a \<Longrightarrow> j < shape1 a \<Longrightarrow> bc_at2 a i j = at2 a i j"
  by (auto simp: bc_at2_def)

lemma py_indices_length:
  "py_indices n is = Inr ks \<Longrightarrow> length ks = length is"
  by (induction "is" arbitrary: ks) (auto split: sum.splits)

lemma py_indices_nth:
  "py_indices n is = Inr ks \<Longrightarrow> k < length is \<Longrightarrow> 0 \<le> is ! k \<Longrightarrow> ks ! k = nat (is ! k)"
proof (induction "is" arbitrary: ks k)
  case Nil
  then show ?case by simp
next
  case (Cons i "is")
  then show ?case
    by (cases k) (auto simp: py_index_def split: sum.splits if_splits)
qed

lemma sum_list_upt_3:
  "sum_list (map f [0..<3]) = f 0 + f 1 + (f 2 :: real)"
  by (simp add: numeral_3_eq_3 numeral_2_eq_2)

lemma sample_image_at_Inr:
  assumes "sample_image_at img pc = Inr gt"
  shows "\<exists>rows cols.
           py_indices (dim1 img) (map snd pc) = Inr rows
         \<and> py_indices (dim2 img) (map fst pc) = Inr cols
         \<and> length rows = length pc
         \<and> gt = transpose01 (tabulate2 (dim0 img) (length pc)
                   (\<lambda>c k. at3 img c (rows ! k) (cols ! k)))"
  using assms
  by (auto simp: sample_image_at_def gather_hw_def split: sum.splits dest: py_indices_length)

lemma sample_image_at_shape:
  assumes "sample_image_at img pc = Inr gt"
  shows "shape0 gt = length pc" and "shape1 gt = dim0 img"
  using sample_image_at_Inr [OF assms] by (auto simp: transpose01_def)

lemma sample_image_at_entry:
  assumes ok: "sample_image_at img pc = Inr gt"
    and k: "k < length pc" and ch: "ch < dim0 img"
    and nonneg: "0 \<le> fst (pc ! k)" "0 \<le> snd (pc ! k)"
  shows "at2 gt k ch = at3 img ch (nat (snd (pc ! k))) (nat (fst (pc ! k)))"
proof -
  from sample_image_at_Inr [OF ok] obtain rows cols where
    rows: "py_indices (dim1 img) (map snd pc) = Inr rows" and
    cols: "py_indices (dim2 img) (map fst pc) = Inr cols" and
    gt: "gt = transpose01 (tabulate2 (dim0 img) (length pc)
                 (\<lambda>c k. at3 img c (rows ! k) (cols ! k)))"
    by blast
  have r: "rows ! k = nat (snd (pc ! k))"
    using py_indices_nth [OF rows, of k] k nonneg by simp
  have c: "cols ! k = nat (fst (pc ! k))"
    using py_indices_nth [OF cols, of k] k nonneg by simp
  show ?thesis
    using k ch by (simp add: gt transpose01_def at2_tabulate2 r c)
qed

lemma feature_tensor_entry:
  assumes "k < length colours"
  shows "at2 (feature_tensor colours) k 0 = fst (colours ! k)"
    and "at2 (feature_tensor colours) k (Suc 0) = fst (snd (colours ! k))"
    and "at2 (feature_tensor colours) k 2 = snd (snd (colours ! k))"
  using assms by (simp_all add: feature_tensor_def at2_tabulate2 split: prod.splits)

lemma mse_loss_at_pixels:
  assumes ok: "sample_image_at img pc = Inr gt"
    and rgb: "dim0 img = 3"
    and ne: "pc \<noteq> []"
    and len: "length colours = length pc"
    and nonneg: "\<forall>p \<in> set pc. 0 \<le> fst p \<and> 0 \<le> snd p"
  shows "mse_loss (feature_tensor colours) gt = Inr (Finite (mse_at_pixels img pc colours))"
proof -
  let ?n = "length pc"
  let ?inp = "feature_tensor colours"
  have sh: "shape0 gt = ?n" "shape1 gt = 3" "shape0 ?inp = ?n" "shape1 ?inp = 3"
    using sample_image_at_shape [OF ok] rgb len by (simp_all add: feature_tensor_def)
  have row: "sum_list (map (\<lambda>j. (bc_at2 ?inp k j - bc_at2 gt k j)\<^sup>2) [0..<3]) =
      squared_error img (pc ! k) (colours ! k)" if k: "k < ?n" for k
  proof -
    have p: "0 \<le> fst (pc ! k)" "0 \<le> snd (pc ! k)"
      using nonneg k by simp_all
    have g: "at2 gt k ch = at3 img ch (nat (snd (pc ! k))) (nat (fst (pc ! k)))"
      if "ch < 3" for ch
      using sample_image_at_entry [OF ok k _ p, of ch] that rgb by simp
    have b: "bc_at2 ?inp k j = at2 ?inp k j" "bc_at2 gt k j = at2 gt k j" if "j < 3" for j
      using that k by (simp_all add: bc_at2_in_range sh)
    show ?thesis
      using k len
      by (simp add: sum_list_upt_3 b g feature_tensor_entry squared_error_def
          split: prod.splits)
  qed
  have "map (\<lambda>i. sum_list (map (\<lambda>j. (bc_at2 ?inp i j - bc_at2 gt i j)\<^sup>2) [0..<3])) [0..<?n] =
      map2 (squared_error img) pc colours"
    using row len by (intro nth_equalityI) simp_all
  then show ?thesis
    using ne by (simp add: mse_loss_def broadcast_dim_def sh mse_at_pixels_def)
qed

lemma debug_show_Inr:
  assumes "debug_show model img pc w = (w', Inr u)"
  shows "w' = w\<lparr>calls := calls w @ [ShowMask (valid_mask model), ShowPixels pc]\<rparr>"
  using assms
  by (auto simp: debug_show_def io_bind_def io_lift_def record_call_def
      split: prod.splits sum.splits)

lemma train_iteration_Inr:
  assumes "train_iteration E c model image_size epoch (opt, seen) (img, pose) w = (w', Inr st')"
  shows "\<exists>pc xy rb out gt loss.
           ext_get_random_pixels_from_image E (rng w) (batch_size (cfg_training c)) image_size
             (camera_model model) (valid_mask model) = Inr (pc, xy)
         \<and> ext_get_rays_from_pixels E pc (camera_model model) (X_ned_cam model) pose
             (cfg_debug c) = Inr rb
         \<and> sample_image_at img pc = Inr gt
         \<and> snd (ext_renderer E (renderer model) (sampler model) (implicit_fn model)
                  (train_mode w) (grad_enabled w) (rng w + 1) (parameters w) rb) = Inr out
         \<and> mse_loss (feature_tensor (feature out)) gt = Inr loss
         \<and> grad_enabled w
         \<and> calls w' = calls w @
             iteration_calls c model image_size epoch pose pc (grad_enabled w) rb loss
         \<and> parameters w' =
             snd (ext_optimizer_step E opt
                    (fst (ext_renderer E (renderer model) (sampler model) (implicit_fn model)
                            (train_mode w) (grad_enabled w) (rng w + 1) (parameters w) rb))
                    (Some (ext_backward E (renderer model) (sampler model) (implicit_fn model)
                            (fst (ext_renderer E (renderer model) (sampler model)
                                    (implicit_fn model) (train_mode w) (grad_enabled w)
                                    (rng w + 1) (parameters w) rb))
                            rb gt)))
         \<and> grad_enabled w' = grad_enabled w
         \<and> train_mode w' = train_mode w
         \<and> files w' = files w
         \<and> snd st' = List.insert pose seen"
proof -
  note defs = train_iteration_def io_bind_def io_lift_def io_return_def record_call_def
    get_random_pixels_from_image_def get_rays_from_pixels_def Model_forward_def
    zero_grad_def loss_backward_def optimizer_step_def iteration_calls_def Let_def
  show ?thesis
  proof (cases "cfg_debug c")
    case True
    with assms show ?thesis
      by (auto simp: defs split: prod.splits sum.splits if_splits dest!: debug_show_Inr)
  next
    case False
    with assms show ?thesis
      by (auto simp: defs split: prod.splits sum.splits if_splits)
  qed
qed

text \<open>
  C5. In every training iteration that runs to its end, the loss shown is the value of
  \<open>mse_loss\<close> on the colours \<open>out["feature"]\<close> the renderer returned for the rays
  generated from \<open>pixel_coords\<close> and on the image sampled at the same \<open>pixel_coords\<close>.
  For an RGB image, at least one pixel, one colour per ray and pixel coordinates that
  are not negative, this is the mean squared error between the colour of ray \<open>k\<close> and
  the three channels of the image at row \<open>y\<^sub>k\<close> and column \<open>x\<^sub>k\<close>, the pixel that
  generated ray \<open>k\<close>.
\<close>

theorem train_iteration_loss:
  assumes run:
    "train_iteration E c model image_size epoch (opt, seen) (img, pose) w = (w', Inr st')"
  shows "\<exists>pc xy rb out loss.
           ext_get_random_pixels_from_image E (rng w) (batch_size (cfg_training c)) image_size
             (camera_model model) (valid_mask model) = Inr (pc, xy)
         \<and> ext_get_rays_from_pixels E pc (camera_model model) (X_ned_cam model) pose
             (cfg_debug c) = Inr rb
         \<and> snd (ext_renderer E (renderer model) (sampler model) (implicit_fn model)
                  (train_mode w) (grad_enabled w) (rng w + 1) (parameters w) rb) = Inr out
         \<and> last (calls w') = SetDescription epoch loss
         \<and> (dim0 img = 3 \<and> pc \<noteq> [] \<and> length (feature out) = length pc
              \<and> (\<forall>p \<in> set pc. 0 \<le> fst p \<and> 0 \<le> snd p)
            \<longrightarrow> loss = Finite (mse_at_pixels img pc (feature out)))"
proof -
  from train_iteration_Inr [OF run] obtain pc xy rb out gt loss where
    pix: "ext_get_random_pixels_from_image E (rng w) (batch_size (cfg_training c)) image_size
            (camera_model model) (valid_mask model) = Inr (pc, xy)"
    and rays: "ext_get_rays_from_pixels E pc (camera_model model) (X_ned_cam model) pose
            (cfg_debug c) = Inr rb"
    and gt: "sample_image_at img pc = Inr gt"
    and fwd: "snd (ext_renderer E (renderer model) (sampler model) (implicit_fn model)
                (train_mode w) (grad_enabled w) (rng w + 1) (parameters w) rb) = Inr out"
    and loss: "mse_loss (feature_tensor (feature out)) gt = Inr loss"
    and calls: "calls w' = calls w @
                  iteration_calls c model image_size epoch pose pc (grad_enabled w) rb loss"
    by blast
  from calls have shown: "last (calls w') = SetDescription epoch loss"
    by (simp add: iteration_calls_def)
  have mse: "loss = Finite (mse_at_pixels img pc (feature out))"
    if "dim0 img = 3 \<and> pc \<noteq> [] \<and> length (feature out) = length pc
        \<and> (\<forall>p \<in> set pc. 0 \<le> fst p \<and> 0 \<le> snd p)"
    using mse_loss_at_pixels [OF gt, of "feature out"] that loss by simp
  from pix rays fwd shown mse show ?thesis
    by blast
qed

text \<open>
  The theorem on the small instance: the two rays have the colours \<open>(1, 0, 0)\<close> and
  \<open>(0, 0, 1)\<close>, the image has \<open>(1, 0, 0)\<close> at both pixels, and the loss is
  \<open>(0 + 2) / 6\<close>.
\<close>

theorem train_iteration_loss_witness:
  "\<exists>w' st'.
      train_iteration example_externals example_cfg example_model [2, 2] 1
        (example_optimizer, []) (example_image, [1, 2, 3, 0, 0, 0, 1]) example_world
        = (w', Inr st')
    \<and> dim0 example_image = 3
    \<and> last (calls w') = SetDescription 1 (Finite (1 / 3))"
proof -
  have "\<exists>gt. sample_image_at example_image [(1, 1), (0, 0)] = Inr gt"
    by (simp add: sample_image_at_def gather_hw_def py_index_def example_image_def)
  then obtain gt where gt: "sample_image_at example_image [(1, 1), (0, 0)] = Inr gt"
    by blast
  have loss: "mse_loss (feature_tensor [(1, 0, 0), (0, 0, 1)]) gt =
      Inr (Finite (mse_at_pixels example_image [(1, 1), (0, 0)] [(1, 0, 0), (0, 0, 1)]))"
    by (rule mse_loss_at_pixels [OF gt]) (simp_all add: example_image_def)
  have "\<exists>w' st'.
      train_iteration example_externals example_cfg example_model [2, 2] 1
        (example_optimizer, []) (example_image, [1, 2, 3, 0, 0, 0, 1]) example_world
        = (w', Inr st')"
    by (simp add: train_iteration_def io_bind_def io_lift_def io_return_def record_call_def
        get_random_pixels_from_image_def get_rays_from_pixels_def Model_forward_def
        zero_grad_def loss_backward_def optimizer_step_def Let_def
        example_externals_def example_cfg_def example_world_def gt loss)
  then obtain w' st' where
    run: "train_iteration example_externals example_cfg example_model [2, 2] 1
            (example_optimizer, []) (example_image, [1, 2, 3, 0, 0, 0, 1]) example_world
            = (w', Inr st')"
    by blast
  from train_iteration_loss [OF run] obtain pc xy out loss where
    pix: "ext_get_random_pixels_from_image example_externals (rng example_world)
            (batch_size (cfg_training example_cfg)) [2, 2]
            (camera_model example_model) (valid_mask example_model) = Inr (pc, xy)"
    and fwd: "\<exists>rb. snd (ext_renderer example_externals (renderer example_model)
                (sampler example_model) (implicit_fn example_model)
                (train_mode example_world) (grad_enabled example_world)
                (rng example_world + 1) (parameters example_world) rb) = Inr out"
    and shown: "last (calls w') = SetDescription 1 loss"
    and mse: "dim0 example_image = 3 \<and> pc \<noteq> [] \<and> length (feature out) = length pc
              \<and> (\<forall>p \<in> set pc. 0 \<le> fst p \<and> 0 \<le> snd p)
            \<longrightarrow> loss = Finite (mse_at_pixels example_image pc (feature out))"
    by blast
  from pix have pc: "pc = [(1, 1), (0, 0)]"
    by (simp add: example_externals_def)
  from fwd have out: "feature out = [(1, 0, 0), (0, 0, 1)]"
    by (auto simp: example_externals_def)
  have rgb: "dim0 example_image = 3"
    by (simp add: example_image_def)
  from mse have "loss = Finite (mse_at_pixels example_image pc (feature out))"
    by (simp add: pc out rgb)
  also have "mse_at_pixels example_image pc (feature out) = 1 / 3"
    by (simp add: pc out mse_at_pixels_def squared_error_def at3_def example_image_def)
  finally have "last (calls w') = SetDescription 1 (Finite (1 / 3))"
    using shown by simp
  with run rgb show ?thesis
    by blast
qed


section \<open>Rules for \<open>io_spec\<close>\<close>

lemma io_specI:
  assumes "\<And>w. P w \<Longrightarrow> P (fst (m w))"
    and "\<And>w. P w \<Longrightarrow> \<exists>new. calls (fst (m w)) = calls w @ new \<and> list_all G new"
    and "\<And>w x. P w \<Longrightarrow> snd (m w) = Inr x \<Longrightarrow> Q x"
  shows "io_spec P G m Q"
  using assms unfolding io_spec_def by blast

lemma io_specD:
  assumes "io_spec P G m Q" and "P w"
  shows "P (fst (m w))"
    and "\<exists>new. calls (fst (m w)) = calls w @ new \<and> list_all G new"
    and "snd (m w) = Inr x \<Longrightarrow> Q x"
  using assms unfolding io_spec_def by blast+

lemma io_spec_weaken:
  assumes "io_spec P G m Q1" and "\<And>x. Q1 x \<Longrightarrow> Q x"
  shows "io_spec P G m Q"
  using assms unfolding io_spec_def by blast

lemma io_spec_bind:
  assumes m: "io_spec P G m Q1"
    and f: "\<And>x. Q1 x \<Longrightarrow> io_spec P G (f x) Q"
  shows "io_spec P G (io_bind m f) Q"
proof (rule io_specI)
  fix w assume P: "P w"
  obtain w1 r1 where mw: "m w = (w1, r1)"
    by (cases "m w")
  from io_specD [OF m P] mw obtain n1 where
    P1: "P w1" and c1: "calls w1 = calls w @ n1" and g1: "list_all G n1"
    by auto
  show "P (fst (io_bind m f w))"
  proof (cases r1)
    case (Inl e)
    with mw P1 show ?thesis by (simp add: io_bind_def)
  next
    case (Inr x)
    with io_specD(3) [OF m P, of x] mw have "Q1 x" by simp
    from io_specD(1) [OF f [OF this] P1] mw Inr show ?thesis
      by (simp add: io_bind_def)
  qed
  show "\<exists>new. calls (fst (io_bind m f w)) = calls w @ new \<and> list_all G new"
  proof (cases r1)
    case (Inl e)
    with mw c1 g1 show ?thesis by (auto simp: io_bind_def)
  next
    case (Inr x)
    with io_specD(3) [OF m P, of x] mw have "Q1 x" by simp
    from io_specD(2) [OF f [OF this] P1] obtain n2 where
      "calls (fst (f x w1)) = calls w1 @ n2" "list_all G n2"
      by blast
    with mw Inr c1 g1 show ?thesis
      by (auto simp: io_bind_def)
  qed
  show "Q y" if "snd (io_bind m f w) = Inr y" for y
  proof (cases r1)
    case (Inl e)
    with mw that show ?thesis by (simp add: io_bind_def)
  next
    case (Inr x)
    with io_specD(3) [OF m P, of x] mw have "Q1 x" by simp
    from io_specD(3) [OF f [OF this] P1, of y] mw Inr that show ?thesis
      by (simp add: io_bind_def)
  qed
qed

lemma io_spec_return:
  "Q x \<Longrightarrow> io_spec P G (io_return x) Q"
  by (simp add: io_spec_def io_return_def)

lemma io_spec_raise:
  "io_spec P G (io_raise e) Q"
  by (simp add: io_spec_def io_raise_def)

lemma io_spec_lift:
  "(\<And>x. r = Inr x \<Longrightarrow> Q x) \<Longrightarrow> io_spec P G (io_lift r) Q"
  by (simp add: io_spec_def io_lift_def)

lemma io_spec_if:
  assumes "b \<Longrightarrow> io_spec P G m1 Q" and "\<not> b \<Longrightarrow> io_spec P G m2 Q"
  shows "io_spec P G (if b then m1 else m2) Q"
  using assms by simp

lemma io_spec_case_prod:
  assumes "\<And>a b. x = (a, b) \<Longrightarrow> io_spec P G (f a b) Q"
  shows "io_spec P G (case x of (a, b) \<Rightarrow> f a b) Q"
  using assms by (cases x) simp

lemma io_spec_record_call:
  assumes "log_free P" and "G c"
  shows "io_spec P G (record_call c) (\<lambda>_. True)"
  using assms by (auto simp: io_spec_def record_call_def log_free_def)

lemma log_free_True:
  "log_free (\<lambda>_. True)"
  by (simp add: log_free_def)

lemma io_spec_no_grad:
  assumes body: "io_spec P G body Q"
    and enter: "\<And>w. P0 w \<Longrightarrow> P (w\<lparr>grad_enabled := False\<rparr>)"
    and leave: "\<And>w b. P w \<Longrightarrow> P0 (w\<lparr>grad_enabled := b\<rparr>)"
  shows "io_spec P0 G (no_grad body) Q"
proof (rule io_specI)
  fix w assume "P0 w"
  then have P: "P (w\<lparr>grad_enabled := False\<rparr>)"
    by (rule enter)
  from io_specD(1) [OF body P] show "P0 (fst (no_grad body w))"
    by (simp add: no_grad_def Let_def leave)
  from io_specD(2) [OF body P]
  show "\<exists>new. calls (fst (no_grad body w)) = calls w @ new \<and> list_all G new"
    by (simp add: no_grad_def Let_def)
  show "Q x" if "snd (no_grad body w) = Inr x" for x
    using io_specD(3) [OF body P, of x] that by (simp add: no_grad_def Let_def)
qed


section \<open>What the statements of the two files may do\<close>

subsection \<open>\<open>render_images\<close>\<close>

lemma get_pixels_spec:
  assumes "log_free P" and "G (GetPixels cam vm fv)"
  shows "io_spec P G (get_pixels_from_image E cam vm fv) (\<lambda>_. True)"
  unfolding get_pixels_from_image_def
  by (intro io_spec_bind [where ?Q1.0 = "\<lambda>_. True"] io_spec_record_call io_spec_lift assms TrueI)

lemma get_rays_spec:
  assumes "log_free P" and "G (GetRays pc cam X pose dbg)"
  shows "io_spec P G (get_rays_from_pixels E pc cam X pose dbg) (\<lambda>_. True)"
  unfolding get_rays_from_pixels_def
  by (intro io_spec_bind [where ?Q1.0 = "\<lambda>_. True"] io_spec_record_call io_spec_lift assms TrueI)

lemma imsave_spec:
  assumes "log_free P" and "G (ImSave file_prefix theta img)"
  shows "io_spec P G (imsave file_prefix theta img) (\<lambda>_. True)"
  unfolding imsave_def by (intro io_spec_record_call assms)

lemma render_frame_spec:
  assumes lf: "log_free P"
    and fw: "\<And>rb. io_spec P G (Model_forward E m rb) (\<lambda>_. True)"
    and g1: "G (GetPixels (camera_model m) (valid_mask m) True)"
    and g2: "\<And>pc. G (GetRays pc (camera_model m) (X_ned_cam m)
                      (translation @ from_euler_z_degrees_as_quat theta) False)"
    and g3: "\<And>img. G (ImSave file_prefix theta img)"
  shows "io_spec P G (render_frame E m translation save file_prefix theta) (\<lambda>_. True)"
  unfolding render_frame_def Let_def
  by (intro io_spec_bind [where ?Q1.0 = "\<lambda>_. True"] io_spec_case_prod io_spec_if
      io_spec_return io_spec_lift get_pixels_spec get_rays_spec imsave_spec fw lf g1 g2 g3 TrueI)

lemma render_loop_spec:
  assumes lf: "log_free P"
    and fw: "\<And>rb. io_spec P G (Model_forward E m rb) (\<lambda>_. True)"
    and g1: "G (GetPixels (camera_model m) (valid_mask m) True)"
    and g2: "\<And>pc theta. G (GetRays pc (camera_model m) (X_ned_cam m)
                      (translation @ from_euler_z_degrees_as_quat theta) False)"
    and g3: "\<And>theta img. G (ImSave file_prefix theta img)"
  shows "io_spec P G (render_loop E m translation save file_prefix thetas acc) (\<lambda>_. True)"
proof (induction thetas arbitrary: acc)
  case Nil
  have "render_loop E m translation save file_prefix [] acc = io_return acc"
    by (rule ext) (simp add: io_return_def)
  then show ?case
    by (simp add: io_spec_return)
next
  case (Cons theta thetas)
  have "render_loop E m translation save file_prefix (theta # thetas) acc =
      io_bind (render_frame E m translation save file_prefix theta)
        (\<lambda>img. render_loop E m translation save file_prefix thetas (acc @ [img]))"
    by (rule ext) simp
  moreover have "io_spec P G (render_frame E m translation save file_prefix theta) (\<lambda>_. True)"
    by (rule render_frame_spec [OF lf fw g1 g2 g3])
  ultimately show ?case
    using Cons.IH by (simp add: io_spec_bind)
qed

lemma render_images_spec:
  assumes lf: "log_free P"
    and fw: "\<And>rb. io_spec P G (Model_forward E m rb) (\<lambda>_. True)"
    and g1: "G (GetPixels (camera_model m) (valid_mask m) True)"
    and g2: "\<And>pc theta. G (GetRays pc (camera_model m) (X_ned_cam m)
                      (translation @ from_euler_z_degrees_as_quat theta) False)"
    and g3: "\<And>theta img. G (ImSave file_prefix theta img)"
  shows "io_spec P G (render_images E m translation n save file_prefix) (\<lambda>_. True)"
proof -
  have loop: "io_spec P G (render_loop E m translation save file_prefix thetas []) (\<lambda>_. True)"
    for thetas
    by (rule render_loop_spec [OF lf fw g1 g2 g3])
  show ?thesis
  proof (rule io_specI)
    fix w assume P: "P w"
    show "P (fst (render_images E m translation n save file_prefix w))"
      using io_specD(1) [OF loop P] P
      by (auto simp: render_images_def split: sum.splits)
    show "\<exists>new. calls (fst (render_images E m translation n save file_prefix w))
            = calls w @ new \<and> list_all G new"
      using io_specD(2) [OF loop P]
      by (auto simp: render_images_def split: sum.splits)
  qed simp
qed

lemma Model_forward_allowed:
  assumes "\<And>g rb. G (Forward g rb)"
  shows "io_spec (\<lambda>_. True) G (Model_forward E m rb) (\<lambda>_. True)"
  using assms by (simp add: io_spec_def Model_forward_def Let_def)



subsection \<open>The end of an epoch\<close>

lemma random_sample_pose_spec:
  assumes "log_free P"
  shows "io_spec P G (random_sample_pose E seen) (\<lambda>p. p \<in> set seen)"
proof (rule io_specI)
  fix w assume "P w"
  with assms show "P (fst (random_sample_pose E seen w))"
    by (simp add: random_sample_pose_def log_free_def)
  show "\<exists>new. calls (fst (random_sample_pose E seen w)) = calls w @ new \<and> list_all G new"
    by (simp add: random_sample_pose_def)
  show "p \<in> set seen" if "snd (random_sample_pose E seen w) = Inr p" for p
    using that by (auto simp: random_sample_pose_def split: if_splits)
qed

lemma io_spec_case_option:
  assumes "x = None \<Longrightarrow> io_spec P G m Q" and "\<And>y. x = Some y \<Longrightarrow> io_spec P G (f y) Q"
  shows "io_spec P G (case x of None \<Rightarrow> m | Some y \<Rightarrow> f y) Q"
  using assms by (cases x) simp_all

lemma render_body_spec:
  assumes lf: "log_free P"
    and fw: "\<And>rb. io_spec P G (Model_forward E m rb) (\<lambda>_. True)"
    and rp: "io_spec P G (render_images_in_poses E m ds 100 True) (\<lambda>_. True)"
    and g1: "G (GetPixels (camera_model m) (valid_mask m) True)"
    and g2: "\<And>pc p theta. p \<in> set seen \<Longrightarrow>
               G (GetRays pc (camera_model m) (X_ned_cam m)
                    (take 3 p @ from_euler_z_degrees_as_quat theta) False)"
    and g3: "\<And>theta img. G (ImSave [] theta img)"
    and g4: "\<And>imgs. G (MimSave epoch imgs)"
  shows "io_spec P G (render_body E c m ds epoch seen) (\<lambda>_. True)"
proof -
  have pick: "io_spec P G (random_sample_pose E seen) (\<lambda>p. p \<in> set seen)"
    by (rule random_sample_pose_spec [OF lf])
  have render: "io_spec P G (render_images E m (take 3 p) 20 False []) (\<lambda>_. True)"
    if "p \<in> set seen" for p
    by (rule render_images_spec [OF lf fw g1 g2 [OF that] g3])
  have first: "io_spec P G
      (if cfg_vis_style c = ''random_pose''
       then io_bind (random_sample_pose E seen) (\<lambda>random_pose.
            io_bind (render_images E m (take 3 random_pose) 20 False [])
              (\<lambda>imgs. io_return (Some imgs)))
       else io_return None) (\<lambda>_. True)"
    by (intro io_spec_if io_spec_bind [OF pick] io_spec_bind [OF render] io_spec_return TrueI)
  have second: "io_spec P G
      (if cfg_vis_style c = ''trajectory''
       then io_bind (render_images_in_poses E m ds 100 True) (\<lambda>imgs. io_return (Some imgs))
       else io_return t1) (\<lambda>_. True)" for t1
    by (intro io_spec_if io_spec_bind [OF rp] io_spec_return TrueI)
  have third: "io_spec P G
      (case t of None \<Rightarrow> io_raise (UnboundLocalError ''test_images'')
       | Some imgs \<Rightarrow> record_call (MimSave epoch imgs)) (\<lambda>_. True)" for t
    by (intro io_spec_case_option io_spec_raise io_spec_record_call lf g4)
  show ?thesis
    unfolding render_body_def
    by (intro io_spec_bind [OF first] io_spec_bind [OF second] third)
qed

lemma epoch_render_spec:
  assumes body: "io_spec P G (render_body E c m ds epoch seen) (\<lambda>_. True)"
    and enter: "\<And>w. P0 w \<Longrightarrow> P (w\<lparr>grad_enabled := False\<rparr>)"
    and leave: "\<And>w b. P w \<Longrightarrow> P0 (w\<lparr>grad_enabled := b\<rparr>)"
  shows "io_spec P0 G (epoch_render E c m ds epoch seen) (\<lambda>_. True)"
proof -
  have "io_spec P0 G (no_grad (render_body E c m ds epoch seen)) (\<lambda>_. True)"
  proof (rule io_spec_no_grad [where P = P])
    show "io_spec P G (render_body E c m ds epoch seen) (\<lambda>_. True)"
      by (rule body)
  qed (fact enter leave)+
  then show ?thesis
    unfolding epoch_render_def
    by (intro io_spec_if io_spec_raise io_spec_return TrueI)
qed

lemma epoch_checkpoint_spec:
  "io_spec (\<lambda>w. parameters w = ps) G (epoch_checkpoint c ckpt_path opt epoch) (\<lambda>_. True)"
  by (simp add: io_spec_def epoch_checkpoint_def)


lemma render_images_in_poses_any:
  "io_spec (\<lambda>_. True) G (render_images_in_poses E m ds n fix) (\<lambda>_. True)"
  by (simp add: io_spec_def render_images_in_poses_def Let_def)


subsection \<open>The training loop\<close>

lemma allowed_call_mono:
  assumes "allowed_call cam mk D c" and "\<And>p. D p \<Longrightarrow> D1 p"
  shows "allowed_call cam mk D1 c"
  using assms by (cases c) auto

lemma io_spec_mono:
  assumes "io_spec P G m Q" and "\<And>c. G c \<Longrightarrow> G1 c"
  shows "io_spec P G1 m Q"
proof (rule io_specI)
  fix w assume P: "P w"
  from io_specD(1) [OF assms(1) P] show "P (fst (m w))" .
  from io_specD(2) [OF assms(1) P] assms(2)
  show "\<exists>new. calls (fst (m w)) = calls w @ new \<and> list_all G1 new"
    by (auto simp: list_all_iff)
  show "Q x" if "snd (m w) = Inr x" for x
    using io_specD(3) [OF assms(1) P that] .
qed

lemma parameters_log_free: "log_free (\<lambda>w. Q (parameters w))"
  by (simp add: log_free_def)

lemma preserved_by_True: "preserved_by E (\<lambda>_. True)"
  by (simp add: preserved_by_def)

lemma get_random_pixels_spec:
  assumes "G (GetRandomPixels n image_size cam vm)"
  shows "io_spec (\<lambda>w. Q (parameters w)) G
           (get_random_pixels_from_image E n image_size cam vm) (\<lambda>_. True)"
  using assms by (simp add: io_spec_def get_random_pixels_from_image_def)

lemma debug_show_spec:
  assumes "G (ShowMask (valid_mask model))" and "G (ShowPixels pc)"
  shows "io_spec (\<lambda>w. Q (parameters w)) G (debug_show model img pc) (\<lambda>_. True)"
  unfolding debug_show_def
  by (intro io_spec_bind [where ?Q1.0 = "\<lambda>_. True"] io_spec_record_call io_spec_lift
      parameters_log_free assms TrueI)

lemma silent_specs:
  "io_spec (\<lambda>w. Q (parameters w)) G zero_grad (\<lambda>_. True)"
  "io_spec (\<lambda>w. Q (parameters w)) G (loss_backward E model rb gt) (\<lambda>_. True)"
  "io_spec (\<lambda>w. Q (parameters w)) G (epoch_checkpoint c ckpt_path opt epoch) (\<lambda>_. True)"
  by (simp_all add: io_spec_def zero_grad_def loss_backward_def epoch_checkpoint_def Let_def)

lemma optimizer_step_spec:
  assumes "preserved_by E Q"
  shows "io_spec (\<lambda>w. Q (parameters w)) G (optimizer_step E opt) (\<lambda>_. True)"
  using assms by (simp add: io_spec_def optimizer_step_def Let_def preserved_by_def)

lemma Model_forward_preserved:
  assumes "preserved_by E Q" and "\<And>g rb. G (Forward g rb)"
  shows "io_spec (\<lambda>w. Q (parameters w)) G (Model_forward E m rb) (\<lambda>_. True)"
  using assms by (simp add: io_spec_def Model_forward_def Let_def preserved_by_def)

lemma render_images_in_poses_preserved:
  assumes "preserved_by E Q"
  shows "io_spec (\<lambda>w. Q (parameters w)) G (render_images_in_poses E m ds n fix) (\<lambda>_. True)"
  using assms by (simp add: io_spec_def render_images_in_poses_def Let_def preserved_by_def)

lemma train_iteration_spec:
  assumes pres: "preserved_by E Q" and pose: "D pose"
  shows "io_spec (\<lambda>w. Q (parameters w))
           (allowed_call (camera_model model) (valid_mask model) D)
           (train_iteration E c model image_size epoch (opt, seen) (img, pose))
           (\<lambda>st. snd st = List.insert pose seen)"
  unfolding train_iteration_def prod.case
  by (intro io_spec_bind [where ?Q1.0 = "\<lambda>_. True"] io_spec_case_prod io_spec_if
      io_spec_return io_spec_lift io_spec_record_call parameters_log_free
      get_random_pixels_spec debug_show_spec get_rays_spec silent_specs
      Model_forward_preserved [OF pres] optimizer_step_spec [OF pres] TrueI)
    (simp_all add: pose)

lemma train_batches_spec:
  assumes pres: "preserved_by E Q"
    and "\<forall>b \<in> set batches. D (snd b)" and "\<forall>p \<in> set (snd st). D p"
  shows "io_spec (\<lambda>w. Q (parameters w))
           (allowed_call (camera_model model) (valid_mask model) D)
           (train_batches E c model image_size epoch st batches)
           (\<lambda>st1. \<forall>p \<in> set (snd st1). D p)"
  using assms(2,3)
proof (induction batches arbitrary: st)
  case Nil
  have "train_batches E c model image_size epoch st [] = io_return st"
    by (rule ext) (simp add: io_return_def)
  with Nil show ?case
    by (simp add: io_spec_return)
next
  case (Cons batch batches)
  obtain opt seen where st: "st = (opt, seen)"
    by (cases st)
  obtain img pose where batch: "batch = (img, pose)"
    by (cases batch)
  have eq: "train_batches E c model image_size epoch st (batch # batches) =
      io_bind (train_iteration E c model image_size epoch (opt, seen) (img, pose))
        (\<lambda>st1. train_batches E c model image_size epoch st1 batches)"
    by (rule ext) (simp add: st batch)
  have pose: "D pose"
    using Cons.prems(1) batch by simp
  show ?case
    unfolding eq
  proof (rule io_spec_bind [OF train_iteration_spec [where D = D, OF pres pose]])
    fix st1 :: "optimizer \<times> real list list"
    assume "snd st1 = List.insert pose seen"
    then have "\<forall>p \<in> set (snd st1). D p"
      using Cons.prems(2) pose st by auto
    with Cons.prems(1)
    show "io_spec (\<lambda>w. Q (parameters w))
        (allowed_call (camera_model model) (valid_mask model) D)
        (train_batches E c model image_size epoch st1 batches) (\<lambda>st1. \<forall>p \<in> set (snd st1). D p)"
      by (intro Cons.IH) simp_all
  qed
qed

lemma render_body_allowed:
  assumes pres: "preserved_by E Q" and seen: "\<forall>p \<in> set seen. D p"
  shows "io_spec (\<lambda>w. Q (parameters w))
           (allowed_call (camera_model model) (valid_mask model) (pipeline_pose D))
           (render_body E c model ds epoch seen) (\<lambda>_. True)"
proof (rule render_body_spec)
  fix pc p theta
  assume "p \<in> set seen"
  with seen have "pipeline_pose D (take 3 p @ from_euler_z_degrees_as_quat theta)"
    by (auto simp: pipeline_pose_def)
  then show "allowed_call (camera_model model) (valid_mask model) (pipeline_pose D)
      (GetRays pc (camera_model model) (X_ned_cam model)
         (take 3 p @ from_euler_z_degrees_as_quat theta) False)"
    by simp
qed (simp_all add: parameters_log_free Model_forward_preserved [OF pres]
    render_images_in_poses_preserved [OF pres])

lemma epoch_render_allowed:
  assumes pres: "preserved_by E Q" and seen: "\<forall>p \<in> set seen. D p"
  shows "io_spec (\<lambda>w. Q (parameters w))
           (allowed_call (camera_model model) (valid_mask model) (pipeline_pose D))
           (epoch_render E c model ds epoch seen) (\<lambda>_. True)"
  by (rule epoch_render_spec [OF render_body_allowed [OF pres seen]]) simp_all

lemma train_epoch_spec:
  assumes pres: "preserved_by E Q"
    and st_seen: "\<forall>p \<in> set (snd (snd st)). loader_pose E ds p"
  shows "io_spec (\<lambda>w. Q (parameters w))
           (allowed_call (camera_model model) (valid_mask model)
              (pipeline_pose (loader_pose E ds)))
           (train_epoch E c model image_size ds ckpt_path st epoch)
           (\<lambda>st1. \<forall>p \<in> set (snd (snd st1)). loader_pose E ds p)"
proof -
  let ?D = "loader_pose E ds"
  let ?P = "\<lambda>w. Q (parameters w)"
  let ?G = "allowed_call (camera_model model) (valid_mask model) (pipeline_pose ?D)"
  obtain opt sched seen where st: "st = (opt, sched, seen)"
    by (cases st) auto
  from st_seen st have seen: "\<forall>p \<in> set seen. ?D p"
    by simp
  have shuffle: "io_spec ?P ?G
      (\<lambda>w. (w\<lparr>rng := rng w + 1\<rparr>, Inr (ext_shuffle E (rng w) ds)))
      (\<lambda>batches. \<forall>b \<in> set batches. ?D (snd b))"
  proof -
    have "\<exists>r img. (img, snd b) \<in> set (ext_shuffle E r ds)"
      if "b \<in> set (ext_shuffle E r0 ds)" for b r0
      using that by (intro exI [of _ r0] exI [of _ "fst b"]) simp
    then show ?thesis
      by (simp add: io_spec_def loader_pose_def)
  qed
  have batches: "io_spec ?P ?G
      (train_batches E c model image_size epoch (opt, seen) batches)
      (\<lambda>st1. \<forall>p \<in> set (snd st1). ?D p)"
    if "\<forall>b \<in> set batches. ?D (snd b)" for batches
    by (rule io_spec_mono [OF train_batches_spec [where D = ?D, OF pres]])
      (use that seen in \<open>auto intro: allowed_call_mono simp: pipeline_pose_def\<close>)
  have tail: "io_spec ?P ?G
      (io_bind (io_lift (ext_scheduler_step E sched opt1 (lr_lambda E c))) (\<lambda>(opt2, sched2).
       io_bind (epoch_checkpoint c ckpt_path opt2 epoch) (\<lambda>_.
       io_bind (epoch_render E c model ds epoch seen1) (\<lambda>_.
       io_return (opt2, sched2, seen1)))))
      (\<lambda>st1. \<forall>p \<in> set (snd (snd st1)). ?D p)"
    if "\<forall>p \<in> set seen1. ?D p" for opt1 seen1
    by (intro io_spec_bind [where ?Q1.0 = "\<lambda>_. True"] io_spec_case_prod io_spec_lift
        io_spec_return silent_specs epoch_render_allowed [OF pres] that TrueI)
      (simp add: that)
  show ?thesis
    unfolding train_epoch_def st prod.case
    by (intro io_spec_bind [OF shuffle] io_spec_bind [OF batches] io_spec_case_prod tail) auto
qed

lemma train_epochs_spec:
  assumes pres: "preserved_by E Q"
    and "\<forall>p \<in> set (snd (snd st)). loader_pose E ds p"
  shows "io_spec (\<lambda>w. Q (parameters w))
           (allowed_call (camera_model model) (valid_mask model)
              (pipeline_pose (loader_pose E ds)))
           (train_epochs E c model image_size ds ckpt_path st epochs)
           (\<lambda>st1. \<forall>p \<in> set (snd (snd st1)). loader_pose E ds p)"
  using assms(2)
proof (induction epochs arbitrary: st)
  case Nil
  have "train_epochs E c model image_size ds ckpt_path st [] = io_return st"
    by (rule ext) (simp add: io_return_def)
  with Nil show ?case
    by (simp add: io_spec_return)
next
  case (Cons epoch epochs)
  have eq: "train_epochs E c model image_size ds ckpt_path st (epoch # epochs) =
      io_bind (train_epoch E c model image_size ds ckpt_path st epoch)
        (\<lambda>st1. train_epochs E c model image_size ds ckpt_path st1 epochs)"
    by (rule ext) simp
  show ?case
    unfolding eq
    by (rule io_spec_bind [OF train_epoch_spec [OF pres Cons.prems]]) (rule Cons.IH)
qed

lemma train_loop_spec:
  assumes pres: "preserved_by E Q"
  shows "io_spec (\<lambda>w. Q (parameters w))
     (allowed_call (camera_model model) (valid_mask model) (pipeline_pose (train_pose E c)))
     (train_loop E c image_size (model, opt, sched, start_epoch, ckpt_path)) (\<lambda>_. True)"
proof -
  let ?P = "\<lambda>w. Q (parameters w)"
  let ?G = "allowed_call (camera_model model) (valid_mask model)
              (pipeline_pose (train_pose E c))"
  have epochs: "io_spec ?P ?G
      (train_epochs E c model image_size ds ckpt_path (opt, sched, []) epochs) (\<lambda>_. True)"
    if ds: "ext_get_dataset E (traj_data_root (cfg_data c)) image_size = Inr (ds, va)"
    for ds va epochs
  proof -
    have "loader_pose E ds p \<Longrightarrow> train_pose E c p" for p
      using ds by (auto simp: train_pose_def)
    then have "pipeline_pose (loader_pose E ds) p \<Longrightarrow> pipeline_pose (train_pose E c) p" for p
      by (auto simp: pipeline_pose_def)
    then have "io_spec ?P ?G
        (train_epochs E c model image_size ds ckpt_path (opt, sched, []) epochs)
        (\<lambda>st1. \<forall>p \<in> set (snd (snd st1)). loader_pose E ds p)"
      by (intro io_spec_mono [OF train_epochs_spec [OF pres]]) (auto intro: allowed_call_mono)
    then show ?thesis
      by (rule io_spec_weaken) simp
  qed
  show ?thesis
    unfolding train_loop_def prod.case
    by (intro io_spec_bind [where ?Q1.0 = "\<lambda>r. ext_get_dataset E (traj_data_root (cfg_data c))
          image_size = Inr r"] io_spec_lift io_spec_case_prod
        io_spec_bind [where ?Q1.0 = "\<lambda>_. True"] io_spec_return TrueI)
      (auto intro: epochs)
qed

lemma create_model_rest_spec:
  "io_spec (\<lambda>_. True) (allowed_call cam mk D) (create_model_rest E c model)
     (\<lambda>created. fst created = model)"
proof -
  have resume: "io_spec (\<lambda>_. True) (allowed_call cam mk D)
      (\<lambda>w. if resume (cfg_training c)
           then (case files w p of Some ck \<Rightarrow> load_checkpoint ck w | None \<Rightarrow> (w, Inr (None, 0)))
           else (w, Inr (None, 0))) (\<lambda>_. True)" for p
    by (auto simp: io_spec_def load_checkpoint_def split: option.splits)
  have adam: "io_spec (\<lambda>_. True) (allowed_call cam mk D)
      (\<lambda>w. (w, ext_Adam E (parameters w) (lr (cfg_training c)))) (\<lambda>_. True)"
    by (simp add: io_spec_def)
  have mode: "io_spec (\<lambda>_. True) (allowed_call cam mk D)
      (\<lambda>w. (w\<lparr>train_mode := True\<rparr>, Inr ())) (\<lambda>_. True)"
    by (simp add: io_spec_def)
  show ?thesis
    unfolding create_model_rest_def Let_def
    by (intro io_spec_bind [where ?Q1.0 = "\<lambda>_. True"] io_spec_case_prod io_spec_if
        io_spec_return io_spec_lift io_spec_record_call log_free_True resume adam mode TrueI)
      simp_all
qed

lemma Model_init_calls:
  "calls (fst (Model_init E c w)) = calls w @
     [GetValidMask \<lparr>ls_fov_degree = fov_degree (cfg_data c),
        ss = \<lparr>ss_H = 256, ss_W = 256\<rparr>, in_to_tensor = False, out_to_numpy = False\<rparr>]"
  by (simp add: Model_init_def Let_def io_bind_def io_lift_def io_return_def record_call_def
      get_valid_mask_def split: prod.splits sum.splits)

text \<open>Every call a training run records: the computation of the mask first, when the
  run gets that far, and then calls that use the mask and the camera of the model.\<close>

lemma train_calls:
  fixes E :: "'c externals"
  defines "cam \<equiv> \<lambda>c. \<lparr>ls_fov_degree = fov_degree (cfg_data c),
        ss = \<lparr>ss_H = 256, ss_W = 256\<rparr>, in_to_tensor = False, out_to_numpy = False\<rparr>"
  shows "calls (fst (train E c w)) = calls w
       \<or> (\<exists>rest. calls (fst (train E c w)) = calls w @ GetValidMask (cam c) # rest
            \<and> list_all (allowed_call (cam c) (ext_get_valid_mask E (cam c))
                          (pipeline_pose (train_pose E c))) rest)"
proof -
  let ?mk = "ext_get_valid_mask E (cam c)"
  let ?G = "allowed_call (cam c) ?mk (pipeline_pose (train_pose E c))"
  have after: "\<exists>rest. calls (fst (create_model E c w)) = calls w @ GetValidMask (cam c) # rest
        \<and> list_all ?G rest
      \<and> (\<forall>created. snd (create_model E c w) = Inr created \<longrightarrow>
            camera_model (fst created) = cam c \<and> valid_mask (fst created) = ?mk)" for w
  proof (cases "Model_init E c w")
    case (Pair w1 r1)
    have c1: "calls w1 = calls w @ [GetValidMask (cam c)]"
      using Model_init_calls [of E c w] Pair by (simp add: cam_def)
    show ?thesis
    proof (cases r1)
      case (Inl e)
      with Pair c1 show ?thesis
        by (simp add: create_model_def io_bind_def)
    next
      case (Inr model)
      from Model_init_Inr(4,5) [of E c w w1 model] Pair Inr
      have m: "camera_model model = cam c" "valid_mask model = ?mk"
        by (simp_all add: cam_def)
      note rest = create_model_rest_spec [of "cam c" ?mk "pipeline_pose (train_pose E c)" E c model]
      from io_specD(2) [OF rest, of w1] obtain new where
        "calls (fst (create_model_rest E c model w1)) = calls w1 @ new" "list_all ?G new"
        by auto
      moreover have "fst created = model"
        if "snd (create_model_rest E c model w1) = Inr created" for created
        using io_specD(3) [OF rest _ that] by simp
      ultimately show ?thesis
        using Pair Inr c1 m by (auto simp: create_model_def io_bind_def)
    qed
  qed
  have loop: "\<exists>rest. calls (fst (io_bind (create_model E c) (train_loop E c sz) w))
        = calls w @ GetValidMask (cam c) # rest \<and> list_all ?G rest" for sz w
  proof (cases "create_model E c w")
    case (Pair w1 r1)
    from after [of w] Pair obtain rest where
      c1: "calls w1 = calls w @ GetValidMask (cam c) # rest" and g1: "list_all ?G rest"
      and m: "\<And>created. r1 = Inr created \<Longrightarrow>
            camera_model (fst created) = cam c \<and> valid_mask (fst created) = ?mk"
      by auto
    show ?thesis
    proof (cases r1)
      case (Inl e)
      with Pair c1 g1 show ?thesis
        by (simp add: io_bind_def)
    next
      case (Inr created)
      obtain model opt sched start_epoch ckpt_path where
        created: "created = (model, opt, sched, start_epoch, ckpt_path)"
        by (cases created) auto
      from m [OF Inr] created have mm: "camera_model model = cam c" "valid_mask model = ?mk"
        by simp_all
      from io_specD(2) [OF train_loop_spec [OF preserved_by_True,
            of model E c sz opt sched start_epoch ckpt_path], of w1]
      obtain new where "calls (fst (train_loop E c sz created w1)) = calls w1 @ new"
        "list_all ?G new"
        by (auto simp: mm created)
      with Pair Inr c1 g1 show ?thesis
        by (auto simp: io_bind_def)
    qed
  qed
  show ?thesis
    using loop
    by (auto simp: train_def io_bind_def io_lift_def split: sum.splits)
qed





section \<open>Claims about the validity mask\<close>

lemma render_images_allowed:
  "\<exists>new. calls (fst (render_images E m translation n save file_prefix w)) = calls w @ new
       \<and> list_all (allowed_call (camera_model m) (valid_mask m) (\<lambda>_. True)) new"
  by (rule io_specD(2) [OF render_images_spec [where P = "\<lambda>_. True"]])
    (simp_all add: log_free_True Model_forward_allowed)

text \<open>
  C2. The mask of the camera is computed once, by the constructor of the model, from
  the camera alone, which the constructor builds from \<open>cfg.data.fov_degree\<close> and the
  constant shape 256 by 256: a constructed model stores \<open>get_valid_mask\<close> of that
  camera, and the constructor calls \<open>get_valid_mask\<close> once. A training run that gets
  as far as the constructor records that call first and never another: whatever the
  run does afterwards, each call that takes a mask (the random pixel sampling, the
  enumeration of the pixels of a frame, the display of the mask) takes the stored one.
  A call of \<open>render_images\<close> computes no mask and passes the stored one, and the image of
  a frame is assembled with the stored mask.
\<close>

theorem valid_mask_computed_once:
  "(let cam = \<lparr>ls_fov_degree = fov_degree (cfg_data c), ss = \<lparr>ss_H = 256, ss_W = 256\<rparr>,
                in_to_tensor = False, out_to_numpy = False\<rparr>;
        mk = ext_get_valid_mask E cam
    in (Model_init E c w = (w1, Inr m) \<longrightarrow>
          camera_model m = cam \<and> valid_mask m = mk \<and> calls w1 = calls w @ [GetValidMask cam])
     \<and> (calls (fst (train E c w)) = calls w
        \<or> (\<exists>rest. calls (fst (train E c w)) = calls w @ GetValidMask cam # rest
              \<and> list_all (allowed_call cam mk (\<lambda>_. True)) rest)))
   \<and> (\<exists>new. calls (fst (render_images E m1 translation n save file_prefix w)) = calls w @ new
         \<and> list_all (allowed_call (camera_model m1) (valid_mask m1) (\<lambda>_. True)) new)
   \<and> assemble_image m1 colours =
       masked_assign (zeros3 (ss_W (ss (camera_model m1))) (ss_H (ss (camera_model m1))))
         (eq_1 (valid_mask m1)) colours"
proof -
  let ?cam = "\<lparr>ls_fov_degree = fov_degree (cfg_data c), ss = \<lparr>ss_H = 256, ss_W = 256\<rparr>,
                in_to_tensor = False, out_to_numpy = False\<rparr>"
  let ?mk = "ext_get_valid_mask E ?cam"
  have init: "camera_model m = ?cam \<and> valid_mask m = ?mk
      \<and> calls w1 = calls w @ [GetValidMask ?cam]"
    if run: "Model_init E c w = (w1, Inr m)"
    using Model_init_Inr(4,5) [OF run] Model_init_calls [of E c w] run by simp
  have "list_all (allowed_call ?cam ?mk (\<lambda>_. True)) rest"
    if "list_all (allowed_call ?cam ?mk (pipeline_pose (train_pose E c))) rest" for rest
    using that by (auto simp: list_all_iff intro: allowed_call_mono)
  with train_calls [of E c w]
  have run: "calls (fst (train E c w)) = calls w
        \<or> (\<exists>rest. calls (fst (train E c w)) = calls w @ GetValidMask ?cam # rest
              \<and> list_all (allowed_call ?cam ?mk (\<lambda>_. True)) rest)"
    by blast
  show ?thesis
    unfolding Let_def
    by (intro conjI impI init run render_images_allowed) (simp_all add: init assemble_image_def)
qed

text \<open>The theorem on the small instance: its constructor returns a model that stores
  the mask of the instance, and its record of calls is the one call of
  \<open>get_valid_mask\<close>.\<close>

theorem valid_mask_computed_once_witness:
  "\<exists>w1 m. Model_init example_externals example_cfg example_world = (w1, Inr m)
     \<and> valid_mask m = example_mask
     \<and> calls w1 = [GetValidMask \<lparr>ls_fov_degree = 195, ss = \<lparr>ss_H = 256, ss_W = 256\<rparr>,
                      in_to_tensor = False, out_to_numpy = False\<rparr>]"
proof -
  obtain w1 m where run: "Model_init example_externals example_cfg example_world = (w1, Inr m)"
    using Model_init_run [of example_externals example_cfg "''volume''" "''stratified''"
        "''volume''" example_world]
    by (auto simp: example_externals_def example_cfg_def registry_build_def)
  from valid_mask_computed_once [where E = example_externals and c = example_cfg
      and w = example_world and ?w1.0 = w1 and m = m, unfolded Let_def,
      THEN conjunct1, THEN conjunct1, rule_format, OF run]
  have "valid_mask m = example_mask
     \<and> calls w1 = [GetValidMask \<lparr>ls_fov_degree = 195, ss = \<lparr>ss_H = 256, ss_W = 256\<rparr>,
                      in_to_tensor = False, out_to_numpy = False\<rparr>]"
    by (simp add: example_externals_def example_cfg_def example_world_def)
  with run show ?thesis
    by blast
qed


section \<open>Claims about the poses\<close>










section \<open>Claims about the writes of the parameters\<close>











end
